theory Spec2Isabelle
  imports Main
begin

section \<open>Python values used by \<^verbatim>\<open>api/index.py\<close>\<close>

text \<open>
  A Python \<^verbatim>\<open>str\<close> is a sequence of Unicode code points, so it is modelled as a list of
  natural numbers, one per code point (\<^verbatim>\<open>len\<close> counts code points, and so does
  \<^const>\<open>length\<close>). ASCII literals of the source are written \<open>str ''...''\<close>; characters
  that cannot stand in such a literal (the apostrophe, the backslash and the em dash
  U+2014 of the source) are written as their numbers 39, 92 and 8212.
\<close>

type_synonym pystr = "nat list"

abbreviation str :: "string \<Rightarrow> pystr" where
  "str \<equiv> map of_char"

text \<open>
  Exceptions are values. Only the class distinctions the source looks at are kept: the
  handler \<^verbatim>\<open>except ImportError\<close> of \<^verbatim>\<open>extract_pdf_text\<close>, and \<^verbatim>\<open>except Exception\<close>,
  which catches every constructor below. \<open>OtherError\<close> stands for the exceptions of the
  libraries (base64, pypdf, the OpenAI client). The argument is what \<^verbatim>\<open>str(e)\<close> returns.
\<close>

datatype pyexc =
    ImportError pystr
  | ValueError pystr
  | RuntimeError pystr
  | IndexError pystr
  | KeyError pystr
  | JSONDecodeError pystr
  | OtherError pystr

fun exc_str :: "pyexc \<Rightarrow> pystr" where
  "exc_str (ImportError m) = m"
| "exc_str (ValueError m) = m"
| "exc_str (RuntimeError m) = m"
| "exc_str (IndexError m) = m"
| "exc_str (KeyError m) = m"
| "exc_str (JSONDecodeError m) = m"
| "exc_str (OtherError m) = m"

text \<open>\<^verbatim>\<open>str.isspace\<close> on one code point, and \<^verbatim>\<open>str.strip()\<close> without argument.\<close>

definition py_isspace :: "nat \<Rightarrow> bool" where
  "py_isspace c \<longleftrightarrow>
     (9 \<le> c \<and> c \<le> 13) \<or> (28 \<le> c \<and> c \<le> 32) \<or> c = 133 \<or> c = 160 \<or> c = 5760 \<or>
     (8192 \<le> c \<and> c \<le> 8202) \<or> c = 8232 \<or> c = 8233 \<or> c = 8239 \<or> c = 8287 \<or> c = 12288"

definition py_strip :: "pystr \<Rightarrow> pystr" where
  "py_strip s = rev (dropWhile py_isspace (rev (dropWhile py_isspace s)))"

text \<open>\<^verbatim>\<open>sep.join(xs)\<close>.\<close>

fun py_join :: "pystr \<Rightarrow> pystr list \<Rightarrow> pystr" where
  "py_join sep [] = []"
| "py_join sep [x] = x"
| "py_join sep (x # y # ys) = x @ sep @ py_join sep (y # ys)"

text \<open>\<^verbatim>\<open>h.startswith(n)\<close> and the substring test \<^verbatim>\<open>n in h\<close>.\<close>

fun starts_with :: "pystr \<Rightarrow> pystr \<Rightarrow> bool" where
  "starts_with [] h = True"
| "starts_with (a # as) [] = False"
| "starts_with (a # as) (b # bs) = (a = b \<and> starts_with as bs)"

fun py_in :: "pystr \<Rightarrow> pystr \<Rightarrow> bool" where
  "py_in n [] = (n = [])"
| "py_in n (c # cs) = (starts_with n (c # cs) \<or> py_in n cs)"

text \<open>
  A \<^verbatim>\<open>dict\<close> with string keys and string values is the list of its items in insertion
  order. \<^verbatim>\<open>dict(pairs)[key]\<close> takes the last item with that key; \<open>None\<close> is \<^verbatim>\<open>KeyError\<close>.
\<close>

type_synonym pydict = "(pystr \<times> pystr) list"

definition py_dict_get :: "pydict \<Rightarrow> pystr \<Rightarrow> pystr option" where
  "py_dict_get pairs key = map_of (rev pairs) key"

section \<open>JSON\<close>

subsection \<open>\<^verbatim>\<open>json.dumps\<close>\<close>

text \<open>
  \<^verbatim>\<open>json.dumps\<close> with its defaults (\<^verbatim>\<open>ensure_ascii=True\<close>, separators \<^verbatim>\<open>", "\<close> and
  \<^verbatim>\<open>": "\<close>), on a dict whose values are strings. A character is written as itself when it
  is printable ASCII other than the quote and the backslash, by a two-character escape
  when it has one, and otherwise as \<^verbatim>\<open>\uXXXX\<close> with four lower-case hexadecimal digits, a
  surrogate pair for the code points above U+FFFF.
\<close>

definition hexdigit :: "nat \<Rightarrow> nat" where
  "hexdigit d = (if d < 10 then 48 + d else 87 + d)"

definition hex4 :: "nat \<Rightarrow> pystr" where
  "hex4 n = [hexdigit (n div 4096 mod 16), hexdigit (n div 256 mod 16),
             hexdigit (n div 16 mod 16), hexdigit (n mod 16)]"

definition esc_u :: "nat \<Rightarrow> pystr" where
  "esc_u n = [92, 117] @ hex4 n"

definition json_esc_char :: "nat \<Rightarrow> pystr" where
  "json_esc_char c =
     (if c = 34 then [92, 34]
      else if c = 92 then [92, 92]
      else if c = 10 then [92, 110]
      else if c = 13 then [92, 114]
      else if c = 9 then [92, 116]
      else if c = 12 then [92, 102]
      else if c = 8 then [92, 98]
      else if 32 \<le> c \<and> c \<le> 126 then [c]
      else if c < 65536 then esc_u c
      else esc_u (55296 + ((c - 65536) div 1024) mod 1024) @ esc_u (56320 + (c - 65536) mod 1024))"

fun json_esc :: "pystr \<Rightarrow> pystr" where
  "json_esc [] = []"
| "json_esc (c # cs) = json_esc_char c @ json_esc cs"

definition json_string :: "pystr \<Rightarrow> pystr" where
  "json_string s = 34 # json_esc s @ [34]"

definition json_item :: "pystr \<times> pystr \<Rightarrow> pystr" where
  "json_item kv = json_string (fst kv) @ str '': '' @ json_string (snd kv)"

definition json_dumps :: "pydict \<Rightarrow> pystr" where
  "json_dumps d = 123 # py_join (str '', '') (map json_item d) @ [125]"

subsection \<open>\<^verbatim>\<open>json.loads\<close>\<close>

text \<open>
  \<^verbatim>\<open>json.loads\<close> as CPython's scanner does it, for the documents the program parses: one
  object whose members have string values, with blanks allowed between the tokens. A
  member value that is not a string is outside this model and is reported as a decoding
  error; the messages carry no position.
\<close>

definition json_ws :: "nat \<Rightarrow> bool" where
  "json_ws c \<longleftrightarrow> c = 32 \<or> c = 9 \<or> c = 10 \<or> c = 13"

definition skip_ws :: "pystr \<Rightarrow> pystr" where
  "skip_ws s = dropWhile json_ws s"

definition hexval :: "nat \<Rightarrow> nat option" where
  "hexval c =
     (if 48 \<le> c \<and> c \<le> 57 then Some (c - 48)
      else if 97 \<le> c \<and> c \<le> 102 then Some (c - 87)
      else if 65 \<le> c \<and> c \<le> 70 then Some (c - 55)
      else None)"

fun hex4_value :: "pystr \<Rightarrow> nat option" where
  "hex4_value (a # b # c # d # rest) =
     (case (hexval a, hexval b, hexval c, hexval d) of
        (Some x, Some y, Some z, Some w) \<Rightarrow> Some (((x * 16 + y) * 16 + z) * 16 + w)
      | _ \<Rightarrow> None)"
| "hex4_value _ = None"

definition simple_escape :: "nat \<Rightarrow> nat option" where
  "simple_escape c =
     (if c = 34 then Some 34
      else if c = 92 then Some 92
      else if c = 47 then Some 47
      else if c = 98 then Some 8
      else if c = 102 then Some 12
      else if c = 110 then Some 10
      else if c = 114 then Some 13
      else if c = 116 then Some 9
      else None)"

definition BAD_ESCAPE :: pyexc where
  "BAD_ESCAPE = JSONDecodeError (str ''Invalid '' @ 92 # str ''escape'')"

definition BAD_UXXXX :: pyexc where
  "BAD_UXXXX = JSONDecodeError (str ''Invalid '' @ 92 # str ''uXXXX escape'')"

definition UNTERMINATED :: pyexc where
  "UNTERMINATED = JSONDecodeError (str ''Unterminated string starting at'')"

text \<open>
  One escape, read after its backslash: the character it stands for and the rest of the
  input. A high surrogate followed by the escape of a low surrogate is one character.
\<close>

definition scan_escape :: "pystr \<Rightarrow> pyexc + (nat \<times> pystr)" where
  "scan_escape s =
     (case s of
        [] \<Rightarrow> Inl UNTERMINATED
      | c # cs \<Rightarrow>
          if c \<noteq> 117 then
            (case simple_escape c of
               None \<Rightarrow> Inl BAD_ESCAPE
             | Some ch \<Rightarrow> Inr (ch, cs))
          else if length cs \<le> 4 then Inl BAD_UXXXX
          else
            (case hex4_value cs of
               None \<Rightarrow> Inl BAD_UXXXX
             | Some uni \<Rightarrow>
                 (let rest = drop 4 cs in
                  if 55296 \<le> uni \<and> uni \<le> 56319 \<and> 6 < length rest \<and> take 2 rest = [92, 117]
                  then
                    (case hex4_value (drop 2 rest) of
                       None \<Rightarrow> Inl BAD_UXXXX
                     | Some uni2 \<Rightarrow>
                         if 56320 \<le> uni2 \<and> uni2 \<le> 57343
                         then Inr (65536 + (uni - 55296) * 1024 + (uni2 - 56320), drop 6 rest)
                         else Inr (uni, rest))
                  else Inr (uni, rest))))"

lemma scan_escape_length: "scan_escape s = Inr (ch, rest) \<Longrightarrow> length rest \<le> length s"
  by (auto simp: scan_escape_def Let_def split: list.splits option.splits if_splits)

fun scan_cons :: "nat \<Rightarrow> pyexc + (pystr \<times> pystr) \<Rightarrow> pyexc + (pystr \<times> pystr)" where
  "scan_cons ch (Inl e) = Inl e"
| "scan_cons ch (Inr (v, rest)) = Inr (ch # v, rest)"

text \<open>
  The string scanner, started after the opening quote: the decoded string and the input
  after the closing quote.
\<close>

function scanstring :: "pystr \<Rightarrow> pyexc + (pystr \<times> pystr)" where
  "scanstring [] = Inl UNTERMINATED"
| "scanstring (c # cs) =
     (if c = 34 then Inr ([], cs)
      else if c = 92 then
        (case scan_escape cs of
           Inl e \<Rightarrow> Inl e
         | Inr (ch, rest) \<Rightarrow> scan_cons ch (scanstring rest))
      else if c \<le> 31 then Inl (JSONDecodeError (str ''Invalid control character at''))
      else scan_cons c (scanstring cs))"
  by pat_completeness auto
termination
proof (relation "measure length")
  show "wf (measure length)" by simp
next
  fix c cs x2 ch rest
  assume "scan_escape cs = Inr x2" "(ch, rest) = x2"
  then have "length rest \<le> length cs" using scan_escape_length [of cs ch rest] by simp
  then show "(rest, c # cs) \<in> measure length" by simp
next
  fix c :: nat and cs :: pystr
  show "(cs, c # cs) \<in> measure length" by simp
qed

lemma scan_cons_Inr: "scan_cons ch r = Inr (v, rest) \<Longrightarrow> \<exists>v'. r = Inr (v', rest)"
  by (cases r) auto

lemma scanstring_length: "scanstring s = Inr (v, rest) \<Longrightarrow> length rest < length s"
proof (induction s arbitrary: v rule: scanstring.induct)
  case 1
  then show ?case by simp
next
  case (2 c cs)
  show ?case
  proof (cases "c = 34")
    case True
    then show ?thesis using "2.prems" by simp
  next
    case n34: False
    show ?thesis
    proof (cases "c = 92")
      case True
      from "2.prems" True obtain ch r1 where e: "scan_escape cs = Inr (ch, r1)"
        and s: "scan_cons ch (scanstring r1) = Inr (v, rest)"
        by (auto split: sum.splits)
      from scan_cons_Inr [OF s] obtain v' where "scanstring r1 = Inr (v', rest)" by blast
      then have "length rest < length r1" using "2.IH"(1) [OF n34 True e refl] by simp
      then show ?thesis using scan_escape_length [OF e] by simp
    next
      case False
      then have s: "scan_cons c (scanstring cs) = Inr (v, rest)" and c: "\<not> c \<le> 31"
        using "2.prems" n34 by (auto split: if_splits)
      from scan_cons_Inr [OF s] obtain v' where "scanstring cs = Inr (v', rest)" by blast
      then have "length rest < length cs" using "2.IH"(2) [OF n34 False c] by simp
      then show ?thesis by simp
    qed
  qed
qed

lemma skip_ws_length: "length (skip_ws s) \<le> length s"
  by (simp add: skip_ws_def length_dropWhile_le)

definition NO_COLON :: pyexc where
  "NO_COLON = JSONDecodeError (str ''Expecting '' @ 39 # 58 # 39 # str '' delimiter'')"

definition NO_COMMA :: pyexc where
  "NO_COMMA = JSONDecodeError (str ''Expecting '' @ 39 # 44 # 39 # str '' delimiter'')"

definition NO_VALUE :: pyexc where
  "NO_VALUE = JSONDecodeError (str ''Expecting value'')"

definition NO_NAME :: pyexc where
  "NO_NAME = JSONDecodeError (str ''Expecting property name enclosed in double quotes'')"

text \<open>The members of an object, started after the opening quote of the first name.\<close>

function parse_members :: "pystr \<Rightarrow> pyexc + (pydict \<times> pystr)" where
  "parse_members s =
     (case scanstring s of
        Inl e \<Rightarrow> Inl e
      | Inr (key, r1) \<Rightarrow>
          (case skip_ws r1 of
             [] \<Rightarrow> Inl NO_COLON
           | c1 # r2 \<Rightarrow>
               if c1 \<noteq> 58 then Inl NO_COLON
               else
                 (case skip_ws r2 of
                    [] \<Rightarrow> Inl NO_VALUE
                  | c2 # r3 \<Rightarrow>
                      if c2 \<noteq> 34 then Inl NO_VALUE
                      else
                        (case scanstring r3 of
                           Inl e \<Rightarrow> Inl e
                         | Inr (v, r4) \<Rightarrow>
                             (case skip_ws r4 of
                                [] \<Rightarrow> Inl NO_COMMA
                              | c3 # r5 \<Rightarrow>
                                  if c3 = 125 then Inr ([(key, v)], r5)
                                  else if c3 \<noteq> 44 then Inl NO_COMMA
                                  else
                                    (case skip_ws r5 of
                                       [] \<Rightarrow> Inl NO_NAME
                                     | c4 # r6 \<Rightarrow>
                                         if c4 \<noteq> 34 then Inl NO_NAME
                                         else
                                           (case parse_members r6 of
                                              Inl e \<Rightarrow> Inl e
                                            | Inr (ps, r7) \<Rightarrow> Inr ((key, v) # ps, r7))))))))"
  by pat_completeness auto
termination
proof (relation "measure length")
  show "wf (measure length)" by simp
next
  fix s x2 key r1 c1 r2 c2 r3 x2a v r4 c3 r5 c4 r6
  assume a: "scanstring s = Inr x2" "(key, r1) = x2" "skip_ws r1 = c1 # r2"
    "skip_ws r2 = c2 # r3" "scanstring r3 = Inr x2a" "(v, r4) = x2a" "skip_ws r4 = c3 # r5"
    "skip_ws r5 = c4 # r6"
  have 1: "length r1 < length s" using a(1,2) scanstring_length [of s key r1] by simp
  have 2: "length r2 < length r1" using a(3) skip_ws_length [of r1] by simp
  have 3: "length r3 < length r2" using a(4) skip_ws_length [of r2] by simp
  have 4: "length r4 < length r3" using a(5,6) scanstring_length [of r3 v r4] by simp
  have 5: "length r5 < length r4" using a(7) skip_ws_length [of r4] by simp
  have 6: "length r6 < length r5" using a(8) skip_ws_length [of r5] by simp
  show "(r6, s) \<in> measure length" using 1 2 3 4 5 6 by simp
qed

declare parse_members.simps [simp del]

text \<open>An object, started after its opening brace.\<close>

definition parse_object :: "pystr \<Rightarrow> pyexc + (pydict \<times> pystr)" where
  "parse_object s =
     (case skip_ws s of
        [] \<Rightarrow> Inl NO_NAME
      | c # cs \<Rightarrow>
          if c = 125 then Inr ([], cs)
          else if c = 34 then parse_members cs
          else Inl NO_NAME)"

definition json_loads :: "pystr \<Rightarrow> pyexc + pydict" where
  "json_loads s =
     (case skip_ws s of
        [] \<Rightarrow> Inl NO_VALUE
      | c # cs \<Rightarrow>
          if c \<noteq> 123 then Inl NO_VALUE
          else
            (case parse_object cs of
               Inl e \<Rightarrow> Inl e
             | Inr (pairs, rest) \<Rightarrow>
                 if skip_ws rest = [] then Inr pairs
                 else Inl (JSONDecodeError (str ''Extra data''))))"

section \<open>PDF extraction\<close>

text \<open>
  \<^verbatim>\<open>extract_pdf_text\<close> imports pypdf, decodes the base64 payload, opens a \<^verbatim>\<open>PdfReader\<close> and
  calls \<^verbatim>\<open>extract_text()\<close> on each page. These libraries are the environment: \<open>pdf_lib\<close>
  maps the payload either to the exception raised by the import, the decoding or the
  reader, or to the pages, each of which raises or returns \<^verbatim>\<open>None\<close> or a string when its
  text is extracted.
\<close>

type_synonym pdf_page = "pyexc + pystr option"
type_synonym pdf_lib = "pystr \<Rightarrow> pyexc + pdf_page list"

text \<open>\<^verbatim>\<open>p.extract_text() or ""\<close>\<close>

fun or_empty :: "pystr option \<Rightarrow> pystr" where
  "or_empty None = []"
| "or_empty (Some t) = t"

text \<open>The generator \<^verbatim>\<open>(p.extract_text() or "" for p in reader.pages)\<close>, consumed by join:
  the first page that raises ends it.\<close>

fun page_texts :: "pdf_page list \<Rightarrow> pyexc + pystr list" where
  "page_texts [] = Inr []"
| "page_texts (Inl e # ps) = Inl e"
| "page_texts (Inr t # ps) =
     (case page_texts ps of Inl e \<Rightarrow> Inl e | Inr ts \<Rightarrow> Inr (or_empty t # ts))"

definition EMPTY_PDF_MSG :: pystr where
  "EMPTY_PDF_MSG = str ''PDF is empty or image-only (scanned PDF not supported).''"

definition NO_PYPDF_MSG :: pystr where
  "NO_PYPDF_MSG = str ''pypdf not installed. Run: pip install pypdf''"

text \<open>The body of the \<^verbatim>\<open>try\<close> block.\<close>

definition extract_pdf_text_body :: "pdf_lib \<Rightarrow> pystr \<Rightarrow> pyexc + pystr" where
  "extract_pdf_text_body lib pdf_base64 =
     (case lib pdf_base64 of
        Inl e \<Rightarrow> Inl e
      | Inr pages \<Rightarrow>
          (case page_texts pages of
             Inl e \<Rightarrow> Inl e
           | Inr ts \<Rightarrow>
               (let text = py_strip (py_join (str ''\<newline>\<newline>'') ts)
                in if text = [] then Inl (ValueError EMPTY_PDF_MSG) else Inr text)))"

text \<open>The handler: an \<^verbatim>\<open>ImportError\<close> becomes a \<^verbatim>\<open>RuntimeError\<close>, anything else propagates.\<close>

definition extract_pdf_text :: "pdf_lib \<Rightarrow> pystr \<Rightarrow> pyexc + pystr" where
  "extract_pdf_text lib pdf_base64 =
     (case extract_pdf_text_body lib pdf_base64 of
        Inl (ImportError m) \<Rightarrow> Inl (RuntimeError NO_PYPDF_MSG)
      | r \<Rightarrow> r)"

section \<open>The OpenAI client\<close>

text \<open>The process environment, as far as the program reads it.\<close>

record environ =
  OPENAI_API_KEY :: "pystr option"
  OPENAI_BASE_URL :: "pystr option"
  OPENAI_MODEL :: "pystr option"

record client =
  api_key :: pystr
  base_url :: pystr

definition MODEL :: "environ \<Rightarrow> pystr" where
  "MODEL env = (case OPENAI_MODEL env of None \<Rightarrow> str ''gpt-4o-mini'' | Some m \<Rightarrow> m)"

text \<open>
  The hosted model is the environment. A streaming request (at temperature 0.3, with a
  system and a user message) either raises when it is created, or delivers finitely many
  chunks and then ends, normally or by raising. A chunk is the list of the
  \<^verbatim>\<open>delta.content\<close> of its choices, each \<^verbatim>\<open>None\<close> or a string. The arguments of the backend
  are the client, the model, the system message and the user message.
\<close>

type_synonym llm_chunk = "pystr option list"

datatype llm_reply =
    CreateRaises pyexc
  | Streaming "llm_chunk list" "pyexc option"

type_synonym backend = "client \<Rightarrow> pystr \<Rightarrow> pystr \<Rightarrow> pystr \<Rightarrow> llm_reply"

text \<open>
  The world outside the program: the PDF libraries, the process environment, the
  constructor \<^verbatim>\<open>AsyncOpenAI(api_key=..., base_url=...)\<close>, which returns a client or raises
  (\<open>Some e\<close>), for instance on a base URL it cannot parse, and the hosted model.
\<close>

record world =
  w_pdf :: pdf_lib
  w_env :: environ
  w_AsyncOpenAI :: "pystr \<Rightarrow> pystr \<Rightarrow> pyexc option"
  w_openai :: backend

text \<open>
  \<^verbatim>\<open>get_client\<close> raises \<^verbatim>\<open>RuntimeError\<close> when the key is unset or empty, and otherwise returns
  what the constructor returns, or raises what it raises.
\<close>

definition get_client :: "world \<Rightarrow> pyexc + client" where
  "get_client w =
     (case OPENAI_API_KEY (w_env w) of
        None \<Rightarrow> Inl (RuntimeError (str ''OPENAI_API_KEY is not set.''))
      | Some key \<Rightarrow>
          if key = [] then Inl (RuntimeError (str ''OPENAI_API_KEY is not set.''))
          else
            (let url = (case OPENAI_BASE_URL (w_env w) of
                          None \<Rightarrow> str ''https://api.openai.com/v1''
                        | Some u \<Rightarrow> u)
             in case w_AsyncOpenAI w key url of
                  Some e \<Rightarrow> Inl e
                | None \<Rightarrow> Inr \<lparr>api_key = key, base_url = url\<rparr>))"

text \<open>\<^verbatim>\<open>client.chat.completions.create(model=MODEL, temperature=0.3, stream=True, ...)\<close>\<close>

definition chat :: "world \<Rightarrow> client \<Rightarrow> pystr \<Rightarrow> pystr \<Rightarrow> llm_reply" where
  "chat w client system user = w_openai w client (MODEL (w_env w)) system user"

section \<open>Server-sent events\<close>

definition sse :: "pydict \<Rightarrow> pystr" where
  "sse event = str ''data: '' @ json_dumps event @ str ''\<newline>\<newline>''"

text \<open>The four event types of the module's docstring, as the source builds them.\<close>

definition running_event :: "pystr \<Rightarrow> pystr" where
  "running_event agent = sse [(str ''agent'', agent), (str ''status'', str ''running'')]"

definition token_event :: "pystr \<Rightarrow> pystr \<Rightarrow> pystr" where
  "token_event agent token =
     sse [(str ''agent'', agent), (str ''status'', str ''token''), (str ''token'', token)]"

definition done_event :: "pystr \<Rightarrow> pystr \<Rightarrow> pystr" where
  "done_event agent output =
     sse [(str ''agent'', agent), (str ''status'', str ''done''), (str ''output'', output)]"

definition error_event :: "pystr \<Rightarrow> pystr \<Rightarrow> pystr" where
  "error_event agent error =
     sse [(str ''agent'', agent), (str ''status'', str ''error''), (str ''error'', error)]"

section \<open>Streaming LLM call\<close>

text \<open>
  The body of \<^verbatim>\<open>async for chunk in stream\<close> with the accumulator \<^verbatim>\<open>full_text\<close>. Everything
  raised inside (by the stream, or by \<^verbatim>\<open>chunk.choices[0]\<close> on a chunk without choices) is
  caught by \<^verbatim>\<open>except Exception\<close> and becomes the error event.
\<close>

fun stream_loop :: "pystr \<Rightarrow> pystr list \<Rightarrow> llm_chunk list \<Rightarrow> pyexc option \<Rightarrow> pystr list" where
  "stream_loop agent_key full_text [] None = [done_event agent_key (concat full_text)]"
| "stream_loop agent_key full_text [] (Some e) = [error_event agent_key (exc_str e)]"
| "stream_loop agent_key full_text ([] # chunks) fin =
     [error_event agent_key (exc_str (IndexError (str ''list index out of range'')))]"
| "stream_loop agent_key full_text ((content # others) # chunks) fin =
     (case content of
        None \<Rightarrow> stream_loop agent_key full_text chunks fin
      | Some token \<Rightarrow>
          if token = [] then stream_loop agent_key full_text chunks fin
          else token_event agent_key token
               # stream_loop agent_key (full_text @ [token]) chunks fin)"

definition llm_stream :: "world \<Rightarrow> client \<Rightarrow> pystr \<Rightarrow> pystr \<Rightarrow> pystr \<Rightarrow> pystr list" where
  "llm_stream w client agent_key system user =
     (case chat w client system user of
        CreateRaises e \<Rightarrow> [error_event agent_key (exc_str e)]
      | Streaming chunks fin \<Rightarrow> stream_loop agent_key [] chunks fin)"

section \<open>Agent system prompts and user prompts\<close>

text \<open>
  The system prompts are the constants of the source. The user prompts are the f-strings
  that \<^verbatim>\<open>run_pipeline\<close> passes to \<^verbatim>\<open>llm_stream\<close>, named here after the agent they are for.
\<close>

definition SYS_SUMMARIZER :: pystr where
  \<open>SYS_SUMMARIZER = concat
    [str ''\<newline>'',
     str ''You are an expert talent intelligence analyst specialising in reading LinkedIn profiles.\<newline>'',
     str ''Your job: analyse the HR manager'',
     [39],
     str ''s LinkedIn profile text and extract structured intelligence.\<newline>'',
     str ''\<newline>'',
     str ''CONTEXT: A job candidate wants to reach out to this HR manager. Your summary will be used\<newline>'',
     str ''by downstream agents to research the company and craft a personalised outreach strategy.\<newline>'',
     str ''\<newline>'',
     str ''RULES:\<newline>'',
     str ''- Use markdown: ## for section headers, **bold** for names/titles/companies, - for bullets\<newline>'',
     str ''- Be concise: 3-5 bullets per section, no waffle\<newline>'',
     str ''- Focus on signals that would help a candidate connect with this person personally'']\<close>
definition SYS_RESEARCHER :: pystr where
  \<open>SYS_RESEARCHER = concat
    [str ''\<newline>'',
     str ''You are a corporate intelligence researcher. Your job: build a deep intelligence brief\<newline>'',
     str ''on the HR manager'',
     [39],
     str ''s company so a job candidate can reference specific, accurate details\<newline>'',
     str ''in their outreach message, making it feel informed and non-generic.\<newline>'',
     str ''\<newline>'',
     str ''RULES:\<newline>'',
     str ''- Use markdown: ## for sections, **bold** for key facts, - for bullets\<newline>'',
     str ''- 4-6 bullets per section, specific and factual\<newline>'',
     str ''- If you lack live data, reason clearly from the profile context and known industry patterns\<newline>'',
     str ''- Flag anything a candidate could use as a natural conversation hook'']\<close>
definition SYS_EVALUATOR :: pystr where
  \<open>SYS_EVALUATOR = concat
    [str ''\<newline>'',
     str ''You are a career strategist and resume fitness evaluator. Your job: cross-reference\<newline>'',
     str ''the CANDIDATE'',
     [39],
     str ''S resume against the HR manager'',
     [39],
     str ''s company and role needs.\<newline>'',
     str ''\<newline>'',
     str ''IMPORTANT DIRECTION: The CANDIDATE is reaching out TO the HR manager, not the other way around.\<newline>'',
     str ''Evaluate the candidate'',
     [39],
     str ''s fit from the candidate'',
     [39],
     str ''s perspective.\<newline>'',
     str ''\<newline>'',
     str ''RULES:\<newline>'',
     str ''- Use markdown: ## for sections, **bold** for key points\<newline>'',
     str ''- Be honest and specific: flag real gaps, don'',
     [39],
     str ''t just be positive\<newline>'',
     str ''- End with ## Fit Score: X/10 and a one-sentence justification'']\<close>
definition SYS_STRATEGIST :: pystr where
  \<open>SYS_STRATEGIST = concat
    [str ''\<newline>'',
     str ''You are a master job-search outreach strategist. Your job: write a strategy and a\<newline>'',
     str ''ready-to-send message FROM the candidate TO the HR manager.\<newline>'',
     str ''\<newline>'',
     str ''CRITICAL DIRECTION - never mix this up:\<newline>'',
     str ''- SENDER   = the JOB CANDIDATE (whose resume you have)\<newline>'',
     str ''- RECEIVER = the HR MANAGER (whose LinkedIn profile was analysed)\<newline>'',
     str ''- The message must be written in FIRST PERSON as the CANDIDATE, addressed to the HR MANAGER by name\<newline>'',
     str ''\<newline>'',
     str ''RULES:\<newline>'',
     str ''- Use ## APPROACH STRATEGY and ## OUTREACH MESSAGE as section headers\<newline>'',
     str ''- Strategy: 4 bullets (channel, timing, conversation hook, what to avoid)\<newline>'',
     str ''- Message: under 150 words, written AS the candidate TO the HR manager\<newline>'',
     str ''- Do NOT use placeholder names like [Your Name] '',
     [8212],
     str '' sign off with "Best regards," only\<newline>'',
     str ''- Reference specific real details from the candidate'',
     [39],
     str ''s background AND the company research\<newline>'',
     str ''- Lead with value the candidate offers, not a generic compliment\<newline>'',
     str ''- End with a single low-friction call to action (e.g. "Would a 15-minute call this week work?")'']\<close>
definition summary_prompt :: "pystr \<Rightarrow> pystr" where
  \<open>summary_prompt linkedin_text = concat
    [str ''\<newline>'',
     str ''Analyse this LinkedIn profile PDF text and extract a structured summary.\<newline>'',
     str ''\<newline>'',
     str ''LINKEDIN PROFILE TEXT:\<newline>'',
     linkedin_text,
     str ''\<newline>'',
     str ''\<newline>'',
     str ''Cover: name & title, career history (key milestones only), core skills,\<newline>'',
     str ''education, personality signals, what they value in candidates.\<newline>'']\<close>

definition research_prompt :: "pystr \<Rightarrow> pystr" where
  \<open>research_prompt profile_summary_text = concat
    [str ''\<newline>'',
     str ''Research this HR manager'',
     [39],
     str ''s company based on their profile.\<newline>'',
     str ''\<newline>'',
     str ''HR MANAGER PROFILE:\<newline>'',
     profile_summary_text,
     str ''\<newline>'',
     str ''\<newline>'',
     str ''Cover: company overview, recent news, culture signals, current hiring trends,\<newline>'',
     str ''strategic priorities, one unique angle a candidate could use in outreach.\<newline>'',
     str ''If live data unavailable, reason from context and industry knowledge.\<newline>'']\<close>

definition evaluation_prompt :: "pystr \<Rightarrow> pystr \<Rightarrow> pystr \<Rightarrow> pystr" where
  \<open>evaluation_prompt resume_block profile_summary_text deep_research_text = concat
    [str ''\<newline>'',
     resume_block,
     str ''\<newline>'',
     str ''\<newline>'',
     str ''HR MANAGER PROFILE:\<newline>'',
     profile_summary_text,
     str ''\<newline>'',
     str ''\<newline>'',
     str ''COMPANY RESEARCH:\<newline>'',
     deep_research_text,
     str ''\<newline>'',
     str ''\<newline>'',
     str ''Evaluate: skills alignment, experience relevance, culture fit, gaps,\<newline>'',
     str ''unique value proposition, fit score 1-10 with justification.\<newline>'']\<close>

definition strategy_prompt :: "pystr \<Rightarrow> pystr \<Rightarrow> pystr \<Rightarrow> pystr \<Rightarrow> pystr" where
  \<open>strategy_prompt resume_block profile_summary_text deep_research_text fitness_eval_text = concat
    [str ''\<newline>'',
     str ''You are helping THE CANDIDATE write a message TO the HR manager.\<newline>'',
     str ''THE CANDIDATE is the sender. THE HR MANAGER is the recipient.\<newline>'',
     str ''\<newline>'',
     str ''--- CANDIDATE'',
     [39],
     str ''S BACKGROUND (the SENDER) ---\<newline>'',
     resume_block,
     str ''\<newline>'',
     str ''\<newline>'',
     str ''--- HR MANAGER PROFILE (the RECIPIENT) ---\<newline>'',
     profile_summary_text,
     str ''\<newline>'',
     str ''\<newline>'',
     str ''--- COMPANY RESEARCH ---\<newline>'',
     deep_research_text,
     str ''\<newline>'',
     str ''\<newline>'',
     str ''--- FITNESS EVALUATION ---\<newline>'',
     fitness_eval_text,
     str ''\<newline>'',
     str ''\<newline>'',
     str ''Now produce:\<newline>'',
     str ''1. ## APPROACH STRATEGY '',
     [8212],
     str '' 4 bullets on how the candidate should approach outreach\<newline>'',
     str ''2. ## OUTREACH MESSAGE '',
     [8212],
     str '' a complete message written in first person AS the candidate,\<newline>'',
     str ''   addressed to the HR manager by their first name. Under 150 words. No placeholder text.\<newline>'']\<close>

section \<open>Pipeline\<close>

definition AGENT_KEYS :: "pystr list" where
  "AGENT_KEYS = [str ''profile_summary'', str ''deep_research'', str ''fitness_eval'',
                 str ''strategy'']"

definition DONE_CHUNK :: pystr where
  "DONE_CHUNK = str ''data: [DONE]\<newline>\<newline>''"

definition TOKEN_MARK :: pystr where
  \<open>TOKEN_MARK = str ''"status": "token"''\<close>

text \<open>
  The loop that relays the chunks of one agent and collects its tokens:
  \<^verbatim>\<open>if '"status": "token"' in chunk: token = json.loads(chunk[6:])["token"]\<close>. Nothing
  catches what \<^verbatim>\<open>json.loads\<close> or the lookup raise, so an exception ends the generator
  before the chunk is yielded. The result is the chunks yielded, and the exception or the
  tokens collected.
\<close>

fun capture_loop :: "pystr list \<Rightarrow> pystr list \<Rightarrow> pystr list \<times> (pyexc + pystr list)" where
  "capture_loop acc [] = ([], Inr acc)"
| "capture_loop acc (chunk # chunks) =
     (if py_in TOKEN_MARK chunk then
        (case json_loads (drop 6 chunk) of
           Inl e \<Rightarrow> ([], Inl e)
         | Inr d \<Rightarrow>
             (case py_dict_get d (str ''token'') of
                None \<Rightarrow> ([], Inl (KeyError (39 # str ''token'' @ [39])))
              | Some token \<Rightarrow>
                  (case capture_loop (acc @ [token]) chunks of
                     (ys, r) \<Rightarrow> (chunk # ys, r))))
      else (case capture_loop acc chunks of (ys, r) \<Rightarrow> (chunk # ys, r)))"

text \<open>
  What one run of the generator does: the chunks it yields, the requests it sends to the
  model (system and user message, in order), and the exception that ended it, if any.
\<close>

record run =
  yields :: "pystr list"
  calls :: "(pystr \<times> pystr) list"
  raised :: "pyexc option"

text \<open>\<^verbatim>\<open>for k in AGENT_KEYS: yield sse({"agent": k, "status": "error", "error": msg})\<close>\<close>

definition error_events :: "pystr \<Rightarrow> pystr list" where
  "error_events msg = map (\<lambda>k. error_event k msg) AGENT_KEYS"

definition resume_block_of :: "pystr \<Rightarrow> pystr" where
  "resume_block_of resume =
     (if py_strip resume \<noteq> [] then str ''CANDIDATE RESUME:\<newline>'' @ resume
      else str ''No resume provided '' @ [8212] @ str '' evaluate generally.'')"

text \<open>The four agents, after extraction and client creation.\<close>

definition run_agents :: "world \<Rightarrow> client \<Rightarrow> pystr \<Rightarrow> pystr \<Rightarrow> run" where
  "run_agents w client linkedin_text resume_block =
     (let p1 = summary_prompt linkedin_text;
          c1 = [(SYS_SUMMARIZER, p1)]
      in case capture_loop [] (llm_stream w client (str ''profile_summary'') SYS_SUMMARIZER p1) of
        (ys1, Inl e) \<Rightarrow>
          \<lparr>yields = running_event (str ''profile_summary'') # ys1, calls = c1, raised = Some e\<rparr>
      | (ys1, Inr profile_summary) \<Rightarrow>
     (let profile_summary_text = concat profile_summary;
          y1 = running_event (str ''profile_summary'') # ys1;
          p2 = research_prompt profile_summary_text;
          c2 = c1 @ [(SYS_RESEARCHER, p2)]
      in case capture_loop [] (llm_stream w client (str ''deep_research'') SYS_RESEARCHER p2) of
        (ys2, Inl e) \<Rightarrow>
          \<lparr>yields = y1 @ running_event (str ''deep_research'') # ys2, calls = c2, raised = Some e\<rparr>
      | (ys2, Inr deep_research) \<Rightarrow>
     (let deep_research_text = concat deep_research;
          y2 = y1 @ running_event (str ''deep_research'') # ys2;
          p3 = evaluation_prompt resume_block profile_summary_text deep_research_text;
          c3 = c2 @ [(SYS_EVALUATOR, p3)]
      in case capture_loop [] (llm_stream w client (str ''fitness_eval'') SYS_EVALUATOR p3) of
        (ys3, Inl e) \<Rightarrow>
          \<lparr>yields = y2 @ running_event (str ''fitness_eval'') # ys3, calls = c3, raised = Some e\<rparr>
      | (ys3, Inr fitness_eval) \<Rightarrow>
     (let fitness_eval_text = concat fitness_eval;
          y3 = y2 @ running_event (str ''fitness_eval'') # ys3;
          p4 = strategy_prompt resume_block profile_summary_text deep_research_text
                 fitness_eval_text;
          c4 = c3 @ [(SYS_STRATEGIST, p4)]
      in \<lparr>yields = y3 @ running_event (str ''strategy'')
                     # llm_stream w client (str ''strategy'') SYS_STRATEGIST p4 @ [DONE_CHUNK],
          calls = c4, raised = None\<rparr>))))"

definition run_pipeline :: "world \<Rightarrow> pystr \<Rightarrow> pystr \<Rightarrow> pystr \<Rightarrow> run" where
  "run_pipeline w linkedin_pdf resume resume_pdf =
     (case extract_pdf_text (w_pdf w) linkedin_pdf of
        Inl e \<Rightarrow>
          \<lparr>yields = error_events (str ''LinkedIn PDF: '' @ exc_str e) @ [DONE_CHUNK],
           calls = [], raised = None\<rparr>
      | Inr linkedin_text \<Rightarrow>
          (case (if resume_pdf \<noteq> [] then extract_pdf_text (w_pdf w) resume_pdf
                 else Inr resume) of
             Inl e \<Rightarrow>
               \<lparr>yields = error_events (str ''Resume PDF: '' @ exc_str e) @ [DONE_CHUNK],
                calls = [], raised = None\<rparr>
           | Inr resume' \<Rightarrow>
               (case get_client w of
                  Inl e \<Rightarrow>
                    \<lparr>yields = error_events (exc_str e) @ [DONE_CHUNK],
                     calls = [], raised = None\<rparr>
                | Inr client \<Rightarrow>
                    run_agents w client linkedin_text (resume_block_of resume'))))"

section \<open>Routes\<close>

text \<open>
  The body of \<^verbatim>\<open>POST /api/run\<close> is parsed into \<^verbatim>\<open>RunRequest\<close> before \<^verbatim>\<open>run_outreach\<close> is
  called. \<^verbatim>\<open>linkedin_pdf: str\<close> has no default, so a body without that field does not
  validate and the framework answers with its validation error, status 422;
  \<^verbatim>\<open>resume\<close> and \<^verbatim>\<open>resume_pdf\<close> default to the empty string. A field of the body is \<open>None\<close>
  when it is absent.
\<close>

record request_body =
  body_linkedin_pdf :: "pystr option"
  body_resume :: "pystr option"
  body_resume_pdf :: "pystr option"

record RunRequest =
  linkedin_pdf :: pystr
  resume :: pystr
  resume_pdf :: pystr

definition validate_RunRequest :: "request_body \<Rightarrow> RunRequest option" where
  "validate_RunRequest body =
     (case body_linkedin_pdf body of
        None \<Rightarrow> None
      | Some lp \<Rightarrow>
          Some \<lparr>linkedin_pdf = lp,
                resume = (case body_resume body of None \<Rightarrow> [] | Some r \<Rightarrow> r),
                resume_pdf = (case body_resume_pdf body of None \<Rightarrow> [] | Some r \<Rightarrow> r)\<rparr>)"

datatype response =
    HTTPError nat pystr
  | ValidationError
  | StreamingResponse run

fun status_code :: "response \<Rightarrow> nat" where
  "status_code (HTTPError code detail) = code"
| "status_code ValidationError = 422"
| "status_code (StreamingResponse r) = 200"

definition run_outreach :: "world \<Rightarrow> RunRequest \<Rightarrow> response" where
  "run_outreach w req =
     (if linkedin_pdf req = [] then HTTPError 400 (str ''linkedin_pdf is required.'')
      else StreamingResponse (run_pipeline w (linkedin_pdf req) (resume req) (resume_pdf req)))"

definition post_api_run :: "world \<Rightarrow> request_body \<Rightarrow> response" where
  "post_api_run w body =
     (case validate_RunRequest body of
        None \<Rightarrow> ValidationError
      | Some req \<Rightarrow> run_outreach w req)"

section \<open>Notions used to state the properties\<close>

text \<open>
  Text that is made of Unicode scalar values: no surrogate code point, nothing above
  U+10FFFF. This is what decoding UTF-8 or a JSON document yields.
\<close>

definition unicode_text :: "pystr \<Rightarrow> bool" where
  "unicode_text s = list_all (\<lambda>c. c < 55296 \<or> (57344 \<le> c \<and> c < 1114112)) s"

text \<open>
  What \<^verbatim>\<open>json.loads\<close> returns for the serialization of a string: the string itself, but
  for a high surrogate directly followed by a low one, which come back as one character.
\<close>

definition is_high :: "nat \<Rightarrow> bool" where
  "is_high c \<longleftrightarrow> 55296 \<le> c \<and> c \<le> 56319"

definition is_low :: "nat \<Rightarrow> bool" where
  "is_low c \<longleftrightarrow> 56320 \<le> c \<and> c \<le> 57343"

definition reload_char :: "nat \<Rightarrow> nat" where
  "reload_char c = (if c < 65536 then c else 65536 + (c - 65536) mod 1048576)"

fun json_reload :: "pystr \<Rightarrow> pystr" where
  "json_reload [] = []"
| "json_reload [c] = [reload_char c]"
| "json_reload (c # d # s) =
     (if is_high c \<and> is_low d
      then (65536 + (c - 55296) * 1024 + (d - 56320)) # json_reload s
      else reload_char c # json_reload (d # s))"

definition reload_item :: "pystr \<times> pystr \<Rightarrow> pystr \<times> pystr" where
  "reload_item kv = (json_reload (fst kv), json_reload (snd kv))"

text \<open>The fragments of a stream that reach the client: the non-empty contents, up to the
  first chunk without choices.\<close>

fun delivered :: "llm_chunk list \<Rightarrow> pystr list" where
  "delivered [] = []"
| "delivered ([] # chunks) = []"
| "delivered ((None # others) # chunks) = delivered chunks"
| "delivered ((Some token # others) # chunks) =
     (if token = [] then delivered chunks else token # delivered chunks)"

text \<open>A stream completes normally when every chunk has a choice and the stream ends
  without raising.\<close>

fun completes :: "llm_chunk list \<Rightarrow> pyexc option \<Rightarrow> bool" where
  "completes [] None = True"
| "completes [] (Some e) = False"
| "completes ([] # chunks) fin = False"
| "completes ((content # others) # chunks) fin = completes chunks fin"

fun reply_tokens :: "llm_reply \<Rightarrow> pystr list" where
  "reply_tokens (CreateRaises e) = []"
| "reply_tokens (Streaming chunks fin) = delivered chunks"

fun reply_completes :: "llm_reply \<Rightarrow> bool" where
  "reply_completes (CreateRaises e) = False"
| "reply_completes (Streaming chunks fin) = completes chunks fin"

text \<open>The text that the orchestrator collects from the chunks of a reply.\<close>

definition captured :: "llm_reply \<Rightarrow> pystr" where
  "captured reply = concat (map json_reload (reply_tokens reply))"

text \<open>What a client reads in a chunk: the field of the JSON object after \<^verbatim>\<open>data: \<close>.\<close>

definition chunk_field :: "pystr \<Rightarrow> pystr \<Rightarrow> pystr option" where
  "chunk_field chunk name =
     (case json_loads (drop 6 chunk) of Inl e \<Rightarrow> None | Inr d \<Rightarrow> py_dict_get d name)"

definition chunk_agent :: "pystr \<Rightarrow> pystr option" where
  "chunk_agent chunk = chunk_field chunk (str ''agent'')"

definition chunk_status :: "pystr \<Rightarrow> pystr option" where
  "chunk_status chunk = chunk_field chunk (str ''status'')"

text \<open>The events of one step key, in the order of the stream.\<close>

definition key_events :: "pystr \<Rightarrow> pystr list \<Rightarrow> pystr list" where
  "key_events k chunks = filter (\<lambda>c. chunk_agent c = Some k) chunks"

text \<open>The run that ends before any agent starts: one error event per key, with the same
  message, then the terminator.\<close>

definition abort_run :: "pystr \<Rightarrow> run" where
  "abort_run msg =
     \<lparr>yields = [error_event (str ''profile_summary'') msg, error_event (str ''deep_research'') msg,
                error_event (str ''fitness_eval'') msg, error_event (str ''strategy'') msg,
                DONE_CHUNK],
      calls = [], raised = None\<rparr>"

text \<open>A request is accepted when both extractions and the creation of the client
  succeed; \<open>accepted\<close> gives the profile text, the resume text and the client then.\<close>

definition accepted :: "world \<Rightarrow> pystr \<Rightarrow> pystr \<Rightarrow> pystr \<Rightarrow> (pystr \<times> pystr \<times> client) option" where
  "accepted w lp res rp =
     (case extract_pdf_text (w_pdf w) lp of
        Inl e \<Rightarrow> None
      | Inr lt \<Rightarrow>
          (case (if rp \<noteq> [] then extract_pdf_text (w_pdf w) rp else Inr res) of
             Inl e \<Rightarrow> None
           | Inr res' \<Rightarrow>
               (case get_client w of
                  Inl e \<Rightarrow> None
                | Inr cl \<Rightarrow> Some (lt, res', cl))))"

definition chunk_token :: "pystr \<Rightarrow> pystr option" where
  "chunk_token chunk = chunk_field chunk (str ''token'')"

definition chunk_output :: "pystr \<Rightarrow> pystr option" where
  "chunk_output chunk = chunk_field chunk (str ''output'')"

definition chunk_error :: "pystr \<Rightarrow> pystr option" where
  "chunk_error chunk = chunk_field chunk (str ''error'')"

subsection \<open>Example environments\<close>

definition demo_env :: environ where
  "demo_env = \<lparr>OPENAI_API_KEY = Some (str ''sk-demo''), OPENAI_BASE_URL = None,
               OPENAI_MODEL = None\<rparr>"

definition demo_client :: client where
  "demo_client = \<lparr>api_key = str ''sk-demo'', base_url = str ''https://api.openai.com/v1''\<rparr>"

text \<open>A PDF library that knows two documents and rejects every other payload.\<close>

definition demo_pdf :: pdf_lib where
  "demo_pdf b =
     (if b = str ''SmFuZQ=='' then Inr [Inr (Some (str ''Jane Doe, HR Manager at Acme''))]
      else if b = str ''Sm9l'' then Inr [Inr (Some (str ''Joe Bloggs, Recruiter at Initech''))]
      else Inl (OtherError (str ''Incorrect padding'')))"

text \<open>A constructor that accepts every key and URL, and one that accepts none.\<close>

definition demo_constructor :: "pystr \<Rightarrow> pystr \<Rightarrow> pyexc option" where
  "demo_constructor key url = None"

definition failing_constructor :: "pystr \<Rightarrow> pystr \<Rightarrow> pyexc option" where
  "failing_constructor key url = Some (OtherError (str ''Invalid port''))"

text \<open>A model that answers every request with two fragments, one whose stream breaks
  after the first fragment, and two that deliver surrogate code points.\<close>

definition demo_backend :: backend where
  "demo_backend cl model system user =
     Streaming [[Some (str ''Hi'')], [None], [Some []], [Some (str ''!'')]] None"

definition broken_backend :: backend where
  "broken_backend cl model system user =
     Streaming [[Some (str ''Hi'')]] (Some (OtherError (str ''Connection error.'')))"

definition split_pair_backend :: backend where
  "split_pair_backend cl model system user = Streaming [[Some [55357]], [Some [56832]]] None"

definition pairs_backend :: backend where
  "pairs_backend cl model system user =
     Streaming [[Some [55357, 56832]], [Some [55357]], [Some [56832]]] None"

definition demo_world :: world where
  "demo_world = \<lparr>w_pdf = demo_pdf, w_env = demo_env, w_AsyncOpenAI = demo_constructor,
                 w_openai = demo_backend\<rparr>"

definition broken_world :: world where
  "broken_world = \<lparr>w_pdf = demo_pdf, w_env = demo_env, w_AsyncOpenAI = demo_constructor,
                   w_openai = broken_backend\<rparr>"

definition split_pair_world :: world where
  "split_pair_world = \<lparr>w_pdf = demo_pdf, w_env = demo_env, w_AsyncOpenAI = demo_constructor,
                       w_openai = split_pair_backend\<rparr>"

definition pairs_world :: world where
  "pairs_world = \<lparr>w_pdf = demo_pdf, w_env = demo_env, w_AsyncOpenAI = demo_constructor,
                  w_openai = pairs_backend\<rparr>"

definition keyless_world :: world where
  "keyless_world =
     \<lparr>w_pdf = demo_pdf,
      w_env = \<lparr>OPENAI_API_KEY = None, OPENAI_BASE_URL = None, OPENAI_MODEL = None\<rparr>,
      w_AsyncOpenAI = demo_constructor,
      w_openai = demo_backend\<rparr>"

definition clientless_world :: world where
  "clientless_world =
     \<lparr>w_pdf = demo_pdf,
      w_env = \<lparr>OPENAI_API_KEY = Some (str ''sk-demo''),
               OPENAI_BASE_URL = Some (str ''http://example.com:abc/''), OPENAI_MODEL = None\<rparr>,
      w_AsyncOpenAI = failing_constructor,
      w_openai = demo_backend\<rparr>"

text \<open>In a serialized string every quote follows a backslash: \<open>guarded p s\<close> says so for
  \<open>s\<close> when \<open>p\<close> is the character before it.\<close>

fun guarded :: "nat \<Rightarrow> pystr \<Rightarrow> bool" where
  "guarded p [] = True"
| "guarded p (c # cs) = ((c = 34 \<longrightarrow> p = 92) \<and> guarded c cs)"

definition u_class :: "nat \<Rightarrow> bool" where
  "u_class c \<longleftrightarrow> c \<notin> {34, 92, 10, 13, 9, 12, 8} \<and> \<not> (32 \<le> c \<and> c \<le> 126)"

section \<open>Serialization and the token mark\<close>

lemma guarded_append: "guarded p (u @ v) = (guarded p u \<and> guarded (last (p # u)) v)"
  by (induction u arbitrary: p) auto

lemma hexdigit_not_quote: "hexdigit d \<noteq> 34"
  by (simp add: hexdigit_def)

lemma guarded_esc_char: "guarded p (json_esc_char c)"
  by (simp add: json_esc_char_def esc_u_def hex4_def hexdigit_not_quote)

lemma guarded_esc: "guarded p (json_esc s)"
  by (induction s arbitrary: p) (simp_all add: guarded_append guarded_esc_char)

lemma sw_append: "starts_with (a # as) (E @ S) =
   (case E of [] \<Rightarrow> starts_with (a # as) S | e # E' \<Rightarrow> a = e \<and> starts_with as (E' @ S))"
  by (cases E) simp_all

lemma no_mark_tail:
  \<open>guarded p E \<Longrightarrow> c \<noteq> 58 \<Longrightarrow> \<not> starts_with (str ''status": "token"'') (E @ 34 # c # S)\<close>
  by (auto simp: sw_append split: list.splits)

lemma mark_skip:
  \<open>guarded p E \<Longrightarrow> c \<noteq> 58 \<Longrightarrow> py_in TOKEN_MARK (E @ 34 # c # S) = py_in TOKEN_MARK (34 # c # S)\<close>
proof (induction E arbitrary: p)
  case Nil
  then show ?case by simp
next
  case (Cons e E)
  from Cons.prems have g: "guarded e E" by simp
  have "\<not> starts_with (str ''status\": \"token\"'') (E @ 34 # c # S)"
    using no_mark_tail [OF g Cons.prems(2)] .
  then have "\<not> starts_with TOKEN_MARK (e # E @ 34 # c # S)"
    by (simp add: TOKEN_MARK_def)
  then show ?case using Cons.IH [OF g Cons.prems(2)] by simp
qed

lemmas esc_mark = mark_skip [OF guarded_esc] no_mark_tail [OF guarded_esc, simplified]

lemmas sse_unfold = sse_def json_dumps_def json_item_def json_string_def json_esc_char_def

lemma mark_token: "py_in TOKEN_MARK (token_event k t)"
  by (simp add: token_event_def sse_unfold esc_mark) (simp add: TOKEN_MARK_def)

lemma mark_done: "\<not> py_in TOKEN_MARK (done_event k t)"
  by (simp add: done_event_def sse_unfold esc_mark) (simp add: TOKEN_MARK_def esc_mark)

lemma mark_error: "\<not> py_in TOKEN_MARK (error_event k t)"
  by (simp add: error_event_def sse_unfold esc_mark) (simp add: TOKEN_MARK_def esc_mark)

lemma mark_running: "\<not> py_in TOKEN_MARK (running_event k)"
  by (simp add: running_event_def sse_unfold esc_mark) (simp add: TOKEN_MARK_def esc_mark)

section \<open>Parsing what was serialized\<close>

lemma hexval_hexdigit: "d < 16 \<Longrightarrow> hexval (hexdigit d) = Some d"
  by (simp add: hexval_def hexdigit_def)

lemma hex4_sum:
  fixes n :: nat
  assumes "n < 65536"
  shows "((n div 4096 mod 16 * 16 + n div 256 mod 16) * 16 + n div 16 mod 16) * 16 + n mod 16 = n"
proof -
  have a: "n div 4096 mod 16 = n div 4096" using assms by simp
  have b: "n mod 4096 = 256 * (n div 256 mod 16) + n mod 256"
    using mod_mult2_eq [of n 256 16] by simp
  have c: "n mod 256 = 16 * (n div 16 mod 16) + n mod 16"
    using mod_mult2_eq [of n 16 16] by simp
  have d: "n = 4096 * (n div 4096) + n mod 4096" by simp
  have key: "((A * 16 + B) * 16 + C) * 16 + D = m"
    if "m = 4096 * A + M1" "M1 = 256 * B + M2" "M2 = 16 * C + D" for A B C D M1 M2 m :: nat
    using that by simp
  show ?thesis unfolding a using key [OF d b c] .
qed

lemma hex4_value_hex4:
  assumes "n < 65536"
  shows "hex4_value (hex4 n @ Y) = Some n"
proof -
  have h: "hexval (hexdigit (k mod 16)) = Some (k mod 16)" for k
    by (simp add: hexval_hexdigit)
  show ?thesis
    by (simp only: hex4_def append.simps hex4_value.simps h prod.case option.case
        hex4_sum [OF assms])
qed

lemma length_hex4: "length (hex4 n) = 4"
  by (simp add: hex4_def)

lemma drop_hex4: "drop 4 (hex4 n @ Y) = Y"
  by (simp add: length_hex4)

lemma scan_escape_u:
  assumes "n < 65536" "Y \<noteq> []"
  shows "scan_escape (117 # hex4 n @ Y) =
     (if is_high n \<and> 6 < length Y \<and> take 2 Y = [92, 117]
      then (case hex4_value (drop 2 Y) of
              None \<Rightarrow> Inl BAD_UXXXX
            | Some uni2 \<Rightarrow>
                if is_low uni2 then Inr (65536 + (n - 55296) * 1024 + (uni2 - 56320), drop 6 Y)
                else Inr (n, Y))
      else Inr (n, Y))"
proof -
  have l: "\<not> length (hex4 n @ Y) \<le> 4" using assms(2) by (cases Y) (simp_all add: length_hex4)
  have "scan_escape (117 # hex4 n @ Y) =
     (let rest = Y in
      if 55296 \<le> n \<and> n \<le> 56319 \<and> 6 < length rest \<and> take 2 rest = [92, 117]
      then
        (case hex4_value (drop 2 rest) of
           None \<Rightarrow> Inl BAD_UXXXX
         | Some uni2 \<Rightarrow>
             if 56320 \<le> uni2 \<and> uni2 \<le> 57343
             then Inr (65536 + (n - 55296) * 1024 + (uni2 - 56320), drop 6 rest)
             else Inr (n, rest))
      else Inr (n, rest))"
    unfolding scan_escape_def list.case
    by (simp only: l hex4_value_hex4 [OF assms(1)] drop_hex4 option.case if_False refl
        simp_thms)
  then show ?thesis
    unfolding Let_def is_high_def is_low_def conj_assoc .
qed

lemma scan_direct:
  "\<not> u_class c \<Longrightarrow> scanstring (json_esc_char c @ Y) = scan_cons c (scanstring Y)"
  by (auto simp: u_class_def json_esc_char_def scan_escape_def simple_escape_def)

lemma esc_char_u: "u_class c \<Longrightarrow> c < 65536 \<Longrightarrow> json_esc_char c = 92 # 117 # hex4 c"
  by (auto simp: u_class_def json_esc_char_def esc_u_def)

lemma esc_char_pair:
  "65536 \<le> c \<Longrightarrow> json_esc_char c =
     92 # 117 # hex4 (55296 + ((c - 65536) div 1024) mod 1024) @
     92 # 117 # hex4 (56320 + (c - 65536) mod 1024)"
  by (auto simp: json_esc_char_def esc_u_def)

lemma high_u_class: "is_high c \<Longrightarrow> u_class c \<and> c < 65536"
  by (simp add: is_high_def u_class_def)

lemma low_u_class: "is_low c \<Longrightarrow> u_class c \<and> c < 65536"
  by (simp add: is_low_def u_class_def)

lemma scan_u:
  "scanstring (92 # 117 # hex4 n @ Y) =
     (case scan_escape (117 # hex4 n @ Y) of
        Inl e \<Rightarrow> Inl e
      | Inr (ch, rest) \<Rightarrow> scan_cons ch (scanstring rest))"
  by simp

lemma look_direct: "\<not> u_class d \<Longrightarrow> take 2 (json_esc_char d @ Z) \<noteq> [92, 117]"
  by (auto simp: u_class_def json_esc_char_def)

lemma look_u:
  assumes "n < 65536" "Z \<noteq> []"
  shows "6 < length (92 # 117 # hex4 n @ Z)" "take 2 (92 # 117 # hex4 n @ Z) = [92, 117]"
    "hex4_value (drop 2 (92 # 117 # hex4 n @ Z)) = Some n"
    "drop 6 (92 # 117 # hex4 n @ Z) = Z"
  using assms by (cases Z; simp add: length_hex4 hex4_value_hex4)+

lemma scan_pair:
  assumes "65536 \<le> c" "Y \<noteq> []"
  shows "scanstring (json_esc_char c @ Y) = scan_cons (reload_char c) (scanstring Y)"
proof -
  let ?hi = "55296 + ((c - 65536) div 1024) mod 1024"
  let ?lo = "56320 + (c - 65536) mod 1024"
  let ?Z = "92 # 117 # hex4 ?lo @ Y"
  have hi: "?hi < 65536" "is_high ?hi" by (simp_all add: is_high_def)
  have lo: "?lo < 65536" "is_low ?lo" by (simp_all add: is_low_def)
  have Z: "?Z \<noteq> []" by simp
  have comb: "65536 + (?hi - 55296) * 1024 + (?lo - 56320) = reload_char c"
    using assms(1) mod_mult2_eq [of "c - 65536" 1024 1024] by (simp add: reload_char_def)
  have "scan_escape (117 # hex4 ?hi @ ?Z) = Inr (reload_char c, Y)"
    unfolding scan_escape_u [OF hi(1) Z]
    using look_u [OF lo(1) assms(2)] hi(2) lo(2) comb by simp
  then show ?thesis
    unfolding esc_char_pair [OF assms(1)] append_Cons append_assoc scan_u by simp
qed

text \<open>The scanner reads a serialized string back, up to its closing quote.\<close>

lemma scan_esc_reload: "scanstring (json_esc s @ 34 # rest) = Inr (json_reload s, rest)"
proof (induction s rule: json_reload.induct)
  case 1
  show ?case by simp
next
  case (2 c)
  consider "\<not> u_class c" | "u_class c" "c < 65536" | "65536 \<le> c" by linarith
  then show ?case
  proof cases
    case 1
    then have "reload_char c = c" by (auto simp: u_class_def reload_char_def)
    then show ?thesis using scan_direct [OF 1] by simp
  next
    case 2
    have "scan_escape (117 # hex4 c @ 34 # rest) = Inr (c, 34 # rest)"
      using scan_escape_u [OF 2(2), of "34 # rest"] by simp
    then show ?thesis using 2 by (simp add: esc_char_u reload_char_def)
  next
    case 3
    show ?thesis using scan_pair [OF 3, of "34 # rest"] by simp
  qed
next
  case (3 c d s)
  let ?Z = "json_esc s @ 34 # rest"
  let ?Y = "json_esc_char d @ ?Z"
  have Z: "?Z \<noteq> []" by simp
  have Y: "?Y \<noteq> []" by simp
  have goal: "json_esc (c # d # s) @ 34 # rest = json_esc_char c @ ?Y" by simp
  show ?case
  proof (cases "is_high c \<and> is_low d")
    case True
    then have c: "u_class c" "c < 65536" and d: "u_class d" "d < 65536"
      using high_u_class low_u_class by auto
    have Yeq: "?Y = 92 # 117 # hex4 d @ ?Z" using d by (simp add: esc_char_u)
    have "scan_escape (117 # hex4 c @ ?Y) = Inr (65536 + (c - 55296) * 1024 + (d - 56320), ?Z)"
      unfolding scan_escape_u [OF c(2) Y] unfolding Yeq
      using look_u [OF d(2) Z] True by simp
    then have "scanstring (json_esc_char c @ ?Y) =
        scan_cons (65536 + (c - 55296) * 1024 + (d - 56320)) (scanstring ?Z)"
      unfolding esc_char_u [OF c] append_Cons scan_u by simp
    then show ?thesis unfolding goal using True "3.IH"(1) by simp
  next
    case False
    have IH: "scanstring ?Y = Inr (json_reload (d # s), rest)"
      using "3.IH"(2) [OF False] by simp
    have step: "scanstring (json_esc_char c @ ?Y) = scan_cons (reload_char c) (scanstring ?Y)"
    proof -
      consider "\<not> u_class c" | "u_class c" "c < 65536" | "65536 \<le> c" by linarith
      then show ?thesis
      proof cases
        case 1
        then have "reload_char c = c" by (auto simp: u_class_def reload_char_def)
        then show ?thesis using scan_direct [OF 1] by simp
      next
        case 2
        have rc: "reload_char c = c" using 2 by (simp add: reload_char_def)
        have "scan_escape (117 # hex4 c @ ?Y) = Inr (c, ?Y)"
        proof (cases "is_high c")
          case hc: True
          then have nl: "\<not> is_low d" using False by simp
          consider "\<not> u_class d" | "u_class d" "d < 65536" | "65536 \<le> d" by linarith
          then show ?thesis
          proof cases
            case 1
            have "take 2 ?Y \<noteq> [92, 117]" by (rule look_direct [OF 1])
            then show ?thesis unfolding scan_escape_u [OF 2(2) Y]
              by (simp del: take_append drop_append length_append)
          next
            case 2
            have Yeq: "?Y = 92 # 117 # hex4 d @ ?Z" using 2 by (simp add: esc_char_u)
            show ?thesis unfolding scan_escape_u [OF \<open>c < 65536\<close> Y] unfolding Yeq
              using look_u [OF 2(2) Z] nl by simp
          next
            case 3
            let ?hi = "55296 + ((d - 65536) div 1024) mod 1024"
            let ?W = "92 # 117 # hex4 (56320 + (d - 65536) mod 1024) @ ?Z"
            have Yeq: "?Y = 92 # 117 # hex4 ?hi @ ?W" using 3 by (simp add: esc_char_pair)
            have hi: "?hi < 65536" "\<not> is_low ?hi" by (simp_all add: is_low_def)
            have W: "?W \<noteq> []" by simp
            show ?thesis unfolding scan_escape_u [OF \<open>c < 65536\<close> Y] unfolding Yeq
              using look_u [OF hi(1) W] hi(2) by simp
          qed
        next
          case False
          then show ?thesis unfolding scan_escape_u [OF 2(2) Y] by simp
        qed
        then show ?thesis unfolding esc_char_u [OF 2] append_Cons scan_u rc by simp
      next
        case 3
        show ?thesis using scan_pair [OF 3 Y] .
      qed
    qed
    show ?thesis unfolding goal step IH using False by auto
  qed
qed

lemma json_reload_unicode: "unicode_text s \<Longrightarrow> json_reload s = s"
  by (induction s rule: json_reload.induct)
    (auto simp: unicode_text_def reload_char_def is_high_def)

declare json_reload.simps [simp del]

lemmas reload_literal = json_reload_unicode unicode_text_def

lemma skip_ws_simps:
  "skip_ws [] = []"
  "skip_ws (32 # s) = skip_ws s"
  "skip_ws (10 # s) = skip_ws s"
  "skip_ws (34 # s) = 34 # s"
  "skip_ws (58 # s) = 58 # s"
  "skip_ws (44 # s) = 44 # s"
  "skip_ws (123 # s) = 123 # s"
  "skip_ws (125 # s) = 125 # s"
  by (simp_all add: skip_ws_def json_ws_def)

lemma parse_members_item:
  "parse_members (json_esc k @ 34 # 58 # 32 # 34 # json_esc v @ 34 # rest) =
     (case skip_ws rest of
        [] \<Rightarrow> Inl NO_COMMA
      | c3 # r5 \<Rightarrow>
          if c3 = 125 then Inr ([(json_reload k, json_reload v)], r5)
          else if c3 \<noteq> 44 then Inl NO_COMMA
          else
            (case skip_ws r5 of
               [] \<Rightarrow> Inl NO_NAME
             | c4 # r6 \<Rightarrow>
                 if c4 \<noteq> 34 then Inl NO_NAME
                 else
                   (case parse_members r6 of
                      Inl e \<Rightarrow> Inl e
                    | Inr (ps, r7) \<Rightarrow> Inr ((json_reload k, json_reload v) # ps, r7))))"
  by (subst parse_members.simps) (simp add: scan_esc_reload skip_ws_simps)

lemma json_item_unfold:
  "json_item (k, v) @ rest = 34 # json_esc k @ 34 # 58 # 32 # 34 # json_esc v @ 34 # rest"
  by (simp add: json_item_def json_string_def)

lemma parse_object_items:
  "parse_object (py_join (str '', '') (map json_item d) @ 125 # rest) = Inr (map reload_item d, rest)"
proof (induction d rule: induct_list012)
  case 1
  show ?case by (simp add: parse_object_def skip_ws_simps)
next
  case (2 x)
  obtain k v where x: "x = (k, v)" by (cases x)
  show ?case
    by (simp add: x json_item_unfold parse_object_def skip_ws_simps parse_members_item
        reload_item_def)
next
  case (3 x y zs)
  obtain k v where x: "x = (k, v)" by (cases x)
  obtain k' v' where y: "y = (k', v')" by (cases y)
  obtain T where T: "py_join (str '', '') (map json_item (y # zs)) @ 125 # rest = 34 # T"
    by (cases zs) (simp_all add: y json_item_unfold)
  have "parse_object (34 # T) = parse_members T"
    by (simp add: parse_object_def skip_ws_simps)
  then have IH: "parse_members T = Inr (map reload_item (y # zs), rest)"
    using "3.IH"(2) unfolding T by simp
  have "py_join (str '', '') (map json_item (x # y # zs)) @ 125 # rest =
        json_item (k, v) @ 44 # 32 #
          (py_join (str '', '') (map json_item (y # zs)) @ 125 # rest)"
    by (simp add: x)
  also have "\<dots> = 34 # json_esc k @ 34 # 58 # 32 # 34 # json_esc v @ 34 # 44 # 32 # 34 # T"
    unfolding json_item_unfold T ..
  finally have eq: "py_join (str '', '') (map json_item (x # y # zs)) @ 125 # rest =
      34 # json_esc k @ 34 # 58 # 32 # 34 # json_esc v @ 34 # 44 # 32 # 34 # T" .
  show ?case unfolding eq
    by (simp add: parse_object_def skip_ws_simps parse_members_item IH reload_item_def x)
qed

text \<open>\<^verbatim>\<open>json.loads(chunk[6:])\<close> on a chunk made by \<^verbatim>\<open>sse\<close> returns the dict that was
  serialized, every string read back.\<close>

lemma json_loads_sse: "json_loads (drop 6 (sse d)) = Inr (map reload_item d)"
  using parse_object_items [of d "[10, 10]"]
  by (simp add: sse_def json_loads_def json_dumps_def skip_ws_simps)

section \<open>The stream of one agent\<close>

lemma stream_loop_completes:
  "completes chunks fin \<Longrightarrow>
   stream_loop k ft chunks fin =
     map (token_event k) (delivered chunks) @ [done_event k (concat (ft @ delivered chunks))]"
  by (induction k ft chunks fin rule: stream_loop.induct) (auto split: option.splits)

lemma stream_loop_fails:
  "\<not> completes chunks fin \<Longrightarrow>
   \<exists>msg. stream_loop k ft chunks fin = map (token_event k) (delivered chunks) @ [error_event k msg]"
  by (induction k ft chunks fin rule: stream_loop.induct) (auto split: option.splits)

lemma llm_stream_completes:
  "reply_completes (chat w cl s u) \<Longrightarrow>
   llm_stream w cl k s u =
     map (token_event k) (reply_tokens (chat w cl s u))
     @ [done_event k (concat (reply_tokens (chat w cl s u)))]"
  by (cases "chat w cl s u") (simp_all add: llm_stream_def stream_loop_completes)

lemma llm_stream_fails:
  "\<not> reply_completes (chat w cl s u) \<Longrightarrow>
   \<exists>msg. llm_stream w cl k s u =
     map (token_event k) (reply_tokens (chat w cl s u)) @ [error_event k msg]"
  by (cases "chat w cl s u") (auto simp: llm_stream_def stream_loop_fails)

lemma llm_stream_shape:
  "\<exists>t. ((\<exists>out. t = done_event k out) \<or> (\<exists>msg. t = error_event k msg)) \<and>
       llm_stream w cl k s u = map (token_event k) (reply_tokens (chat w cl s u)) @ [t]"
proof (cases "reply_completes (chat w cl s u)")
  case True
  show ?thesis using llm_stream_completes [OF True, of k] by blast
next
  case False
  show ?thesis using llm_stream_fails [OF False, of k] by blast
qed

text \<open>The collecting loop parses exactly the token events of an agent's stream, and
  nothing it meets there makes it raise.\<close>

lemma capture_token:
  "py_dict_get (map reload_item [(str ''agent'', k), (str ''status'', str ''token''),
      (str ''token'', t)]) (str ''token'') = Some (json_reload t)"
  by (simp add: py_dict_get_def reload_item_def reload_literal)

lemma capture_stream_loop:
  "capture_loop acc (stream_loop k ft chunks fin) =
     (stream_loop k ft chunks fin, Inr (acc @ map json_reload (delivered chunks)))"
proof (induction k ft chunks fin arbitrary: acc rule: stream_loop.induct)
  case (1 agent_key full_text)
  show ?case by (simp add: mark_done)
next
  case (2 agent_key full_text e)
  show ?case by (simp add: mark_error)
next
  case (3 agent_key full_text chunks fin)
  show ?case by (simp add: mark_error)
next
  case (4 agent_key full_text content others chunks fin)
  show ?case
  proof (cases content)
    case None
    then show ?thesis using 4 by simp
  next
    case (Some token)
    show ?thesis
    proof (cases "token = []")
      case True
      then show ?thesis using 4 Some by simp
    next
      case False
      have "json_loads (drop 6 (token_event agent_key token)) =
          Inr (map reload_item [(str ''agent'', agent_key), (str ''status'', str ''token''),
            (str ''token'', token)])"
        unfolding token_event_def by (rule json_loads_sse)
      then show ?thesis using 4(3) [OF Some False] Some False
        by (simp add: mark_token capture_token del: list.map) simp
    qed
  qed
qed

lemma capture_llm_stream:
  "capture_loop [] (llm_stream w cl k s u) =
     (llm_stream w cl k s u, Inr (map json_reload (reply_tokens (chat w cl s u))))"
  by (cases "chat w cl s u") (simp_all add: llm_stream_def capture_stream_loop mark_error)

section \<open>The run of the four agents\<close>

lemma run_agents_normal:
  "run_agents w cl lt rb =
     (let p1 = summary_prompt lt;
          t1 = captured (chat w cl SYS_SUMMARIZER p1);
          p2 = research_prompt t1;
          t2 = captured (chat w cl SYS_RESEARCHER p2);
          p3 = evaluation_prompt rb t1 t2;
          t3 = captured (chat w cl SYS_EVALUATOR p3);
          p4 = strategy_prompt rb t1 t2 t3
      in \<lparr>yields =
             running_event (str ''profile_summary'')
               # llm_stream w cl (str ''profile_summary'') SYS_SUMMARIZER p1
             @ running_event (str ''deep_research'')
               # llm_stream w cl (str ''deep_research'') SYS_RESEARCHER p2
             @ running_event (str ''fitness_eval'')
               # llm_stream w cl (str ''fitness_eval'') SYS_EVALUATOR p3
             @ running_event (str ''strategy'')
               # llm_stream w cl (str ''strategy'') SYS_STRATEGIST p4
             @ [DONE_CHUNK],
          calls = [(SYS_SUMMARIZER, p1), (SYS_RESEARCHER, p2), (SYS_EVALUATOR, p3),
                   (SYS_STRATEGIST, p4)],
          raised = None\<rparr>)"
  by (simp add: run_agents_def Let_def capture_llm_stream captured_def)

text \<open>An accepted request runs the four agents; any other request is aborted.\<close>

lemma accepted_run:
  "accepted w lp res rp = Some (lt, res', cl) \<Longrightarrow>
   run_pipeline w lp res rp = run_agents w cl lt (resume_block_of res')"
  by (auto simp: accepted_def run_pipeline_def split: sum.splits)

lemma rejected_run:
  "accepted w lp res rp = None \<Longrightarrow> \<exists>msg. run_pipeline w lp res rp = abort_run msg"
  by (auto simp: accepted_def run_pipeline_def abort_run_def error_events_def AGENT_KEYS_def
      split: sum.splits)

section \<open>What the client reads\<close>

lemma chunk_field_sse: "chunk_field (sse d) name = py_dict_get (map reload_item d) name"
  by (simp add: chunk_field_def json_loads_sse)

lemma chunk_agent_event:
  "chunk_agent (running_event k) = Some (json_reload k)"
  "chunk_agent (token_event k t) = Some (json_reload k)"
  "chunk_agent (done_event k t) = Some (json_reload k)"
  "chunk_agent (error_event k t) = Some (json_reload k)"
  by (simp_all add: chunk_agent_def running_event_def token_event_def done_event_def
      error_event_def chunk_field_sse py_dict_get_def reload_item_def reload_literal)

lemma chunk_status_event:
  "chunk_status (running_event k) = Some (str ''running'')"
  "chunk_status (token_event k t) = Some (str ''token'')"
  "chunk_status (done_event k t) = Some (str ''done'')"
  "chunk_status (error_event k t) = Some (str ''error'')"
  by (simp_all add: chunk_status_def running_event_def token_event_def done_event_def
      error_event_def chunk_field_sse py_dict_get_def reload_item_def reload_literal)

lemma done_chunk_field: "chunk_field DONE_CHUNK name = None"
  by (simp add: chunk_field_def DONE_CHUNK_def json_loads_def skip_ws_def json_ws_def)

lemma llm_stream_member:
  assumes "c \<in> set (llm_stream w cl k s u)"
  shows "(\<exists>t. c = token_event k t) \<or> (\<exists>t. c = done_event k t) \<or> (\<exists>t. c = error_event k t)"
proof -
  obtain t where t: "(\<exists>out. t = done_event k out) \<or> (\<exists>msg. t = error_event k msg)"
    and eq: "llm_stream w cl k s u = map (token_event k) (reply_tokens (chat w cl s u)) @ [t]"
    using llm_stream_shape [where k = k and w = w and cl = cl and s = s and u = u]
    by (elim exE conjE)
  from assms have "c = t \<or> c \<in> token_event k ` set (reply_tokens (chat w cl s u))"
    unfolding eq by simp
  then show ?thesis
  proof
    assume "c = t"
    then show ?thesis using t by simp
  next
    assume "c \<in> token_event k ` set (reply_tokens (chat w cl s u))"
    then show ?thesis by (elim imageE) (rule disjI1, rule exI)
  qed
qed

lemma llm_stream_agent:
  assumes "c \<in> set (llm_stream w cl k s u)"
  shows "chunk_agent c = Some (json_reload k)"
  using llm_stream_member [OF assms] by (elim disjE exE) (simp_all add: chunk_agent_event)

lemma key_events_append: "key_events k (xs @ ys) = key_events k xs @ key_events k ys"
  by (simp add: key_events_def)

lemma key_events_Cons:
  "key_events k (x # xs) = (if chunk_agent x = Some k then x # key_events k xs else key_events k xs)"
  by (simp add: key_events_def)

lemma key_events_Nil: "key_events k [] = []"
  by (simp add: key_events_def)

lemma key_events_llm_stream:
  "key_events k' (llm_stream w cl k s u) =
     (if json_reload k = k' then llm_stream w cl k s u else [])"
proof (cases "json_reload k = k'")
  case True
  have "filter (\<lambda>c. chunk_agent c = Some k') (llm_stream w cl k s u) = llm_stream w cl k s u"
    by (rule filter_True) (simp add: llm_stream_agent True)
  then show ?thesis using True by (simp add: key_events_def)
next
  case False
  have "filter (\<lambda>c. chunk_agent c = Some k') (llm_stream w cl k s u) = []"
    unfolding filter_empty_conv
  proof
    fix c assume "c \<in> set (llm_stream w cl k s u)"
    then have "chunk_agent c = Some (json_reload k)" by (rule llm_stream_agent)
    then show "chunk_agent c \<noteq> Some k'" using False by simp
  qed
  then show ?thesis using False by (simp add: key_events_def)
qed

lemma chunk_agent_done: "chunk_agent DONE_CHUNK = None"
  by (simp add: chunk_agent_def done_chunk_field)

lemma chunk_status_done: "chunk_status DONE_CHUNK = None"
  by (simp add: chunk_status_def done_chunk_field)





lemma chunk_payload_event:
  "chunk_token (token_event k t) = Some (json_reload t)"
  "chunk_output (done_event k out) = Some (json_reload out)"
  "chunk_error (error_event k msg) = Some (json_reload msg)"
  by (simp_all add: chunk_token_def chunk_output_def chunk_error_def token_event_def
      done_event_def error_event_def chunk_field_sse py_dict_get_def reload_item_def
      reload_literal)

lemma chunk_payload_absent:
  "chunk_token (running_event k) = None"
  "chunk_token (done_event k out) = None"
  "chunk_token (error_event k msg) = None"
  "chunk_token DONE_CHUNK = None"
  "chunk_output (running_event k) = None"
  "chunk_output (token_event k t) = None"
  "chunk_output (error_event k msg) = None"
  "chunk_output DONE_CHUNK = None"
  "chunk_error (running_event k) = None"
  "chunk_error (token_event k t) = None"
  "chunk_error (done_event k out) = None"
  "chunk_error DONE_CHUNK = None"
  by (simp_all add: chunk_token_def chunk_output_def chunk_error_def running_event_def
      token_event_def done_event_def error_event_def chunk_field_sse py_dict_get_def
      reload_item_def reload_literal done_chunk_field)

text \<open>Reading back leaves a prefix of Unicode text as it is.\<close>

lemma json_reload_append:
  "unicode_text a \<Longrightarrow> json_reload (a @ m) = a @ json_reload m"
proof (induction a rule: induct_list012)
  case 1
  show ?case by simp
next
  case (2 c)
  then have c: "\<not> is_high c" "reload_char c = c"
    by (auto simp: unicode_text_def is_high_def reload_char_def)
  show ?case using c by (cases m) (simp_all add: json_reload.simps)
next
  case (3 c d a)
  then have c: "\<not> is_high c" "reload_char c = c"
    by (auto simp: unicode_text_def is_high_def reload_char_def)
  have "unicode_text (d # a)" using "3.prems" by (simp add: unicode_text_def)
  then have "json_reload (d # a @ m) = d # a @ json_reload m" using "3.IH"(2) by simp
  then show ?case using c by (simp add: json_reload.simps)
qed

lemma unicode_concat: "list_all unicode_text ts \<Longrightarrow> unicode_text (concat ts)"
  by (induction ts) (simp_all add: unicode_text_def)

lemma reload_unicode_list: "list_all unicode_text ts \<Longrightarrow> map json_reload ts = ts"
  by (induction ts) (simp_all add: json_reload_unicode)

text \<open>The fields of the events of one step.\<close>

lemma token_events_fields:
  "map chunk_agent (map (token_event k) ts) = replicate (length ts) (Some (json_reload k))"
  "map chunk_status (map (token_event k) ts) = replicate (length ts) (Some (str ''token''))"
  "map chunk_token (map (token_event k) ts) = map (\<lambda>t. Some (json_reload t)) ts"
  "map chunk_output (map (token_event k) ts) = replicate (length ts) None"
  "map chunk_error (map (token_event k) ts) = replicate (length ts) None"
  by (induction ts)
    (simp_all add: chunk_agent_event chunk_status_event chunk_payload_event
      chunk_payload_absent)

lemma completed_stream_fields:
  assumes "reply_completes (chat w cl s u)"
  shows "map chunk_agent (llm_stream w cl k s u) =
           replicate (Suc (length (reply_tokens (chat w cl s u)))) (Some (json_reload k))"
    and "map chunk_status (llm_stream w cl k s u) =
           replicate (length (reply_tokens (chat w cl s u))) (Some (str ''token''))
           @ [Some (str ''done'')]"
    and "map chunk_token (llm_stream w cl k s u) =
           map (\<lambda>t. Some (json_reload t)) (reply_tokens (chat w cl s u)) @ [None]"
    and "map chunk_output (llm_stream w cl k s u) =
           replicate (length (reply_tokens (chat w cl s u))) None
           @ [Some (json_reload (concat (reply_tokens (chat w cl s u))))]"
    and "map chunk_error (llm_stream w cl k s u) =
           replicate (Suc (length (reply_tokens (chat w cl s u)))) None"
  unfolding llm_stream_completes [OF assms] map_append token_events_fields
  by (simp_all add: chunk_agent_event chunk_status_event chunk_payload_event
      chunk_payload_absent replicate_append_same)

lemma failed_stream_fields:
  assumes "\<not> reply_completes (chat w cl s u)"
  shows "map chunk_agent (llm_stream w cl k s u) =
           replicate (Suc (length (reply_tokens (chat w cl s u)))) (Some (json_reload k)) \<and>
         map chunk_status (llm_stream w cl k s u) =
           replicate (length (reply_tokens (chat w cl s u))) (Some (str ''token''))
           @ [Some (str ''error'')] \<and>
         map chunk_token (llm_stream w cl k s u) =
           map (\<lambda>t. Some (json_reload t)) (reply_tokens (chat w cl s u)) @ [None] \<and>
         map chunk_output (llm_stream w cl k s u) =
           replicate (Suc (length (reply_tokens (chat w cl s u)))) None \<and>
         (\<exists>msg. map chunk_error (llm_stream w cl k s u) =
           replicate (length (reply_tokens (chat w cl s u))) None @ [Some msg])"
proof -
  obtain msg where eq: "llm_stream w cl k s u =
      map (token_event k) (reply_tokens (chat w cl s u)) @ [error_event k msg]"
    using llm_stream_fails [OF assms, of k] by (elim exE)
  have e: "map chunk_error (llm_stream w cl k s u) =
      replicate (length (reply_tokens (chat w cl s u))) None @ [Some (json_reload msg)]"
    unfolding eq map_append token_events_fields by (simp add: chunk_payload_event)
  have rest: "map chunk_agent (llm_stream w cl k s u) =
           replicate (Suc (length (reply_tokens (chat w cl s u)))) (Some (json_reload k))"
    "map chunk_status (llm_stream w cl k s u) =
           replicate (length (reply_tokens (chat w cl s u))) (Some (str ''token''))
           @ [Some (str ''error'')]"
    "map chunk_token (llm_stream w cl k s u) =
           map (\<lambda>t. Some (json_reload t)) (reply_tokens (chat w cl s u)) @ [None]"
    "map chunk_output (llm_stream w cl k s u) =
           replicate (Suc (length (reply_tokens (chat w cl s u)))) None"
    unfolding eq map_append token_events_fields
    by (simp_all add: chunk_agent_event chunk_status_event chunk_payload_absent
        replicate_append_same)
  show ?thesis
    by (intro conjI rest exI [of _ "json_reload msg"] e)
qed

section \<open>What the prompts contain\<close>

lemma starts_with_append: "starts_with n (n @ r)"
  by (induction n) simp_all

lemma py_in_append: "py_in n (p @ n @ r)"
proof (induction p)
  case Nil
  show ?case using starts_with_append [of n r] by (cases "n @ r") auto
next
  case (Cons c p)
  then show ?case by simp
qed

lemma py_in_concat: "x \<in> set xs \<Longrightarrow> py_in x (concat xs)"
proof -
  assume "x \<in> set xs"
  then obtain ys zs where "xs = ys @ x # zs" by (auto simp: in_set_conv_decomp)
  then have "concat xs = concat ys @ x @ concat zs" by simp
  then show ?thesis by (simp only: py_in_append)
qed

lemma prompts_contain:
  "py_in lt (summary_prompt lt)"
  "py_in t1 (research_prompt t1)"
  "py_in rb (evaluation_prompt rb t1 t2)"
  "py_in t1 (evaluation_prompt rb t1 t2)"
  "py_in t2 (evaluation_prompt rb t1 t2)"
  "py_in rb (strategy_prompt rb t1 t2 t3)"
  "py_in t1 (strategy_prompt rb t1 t2 t3)"
  "py_in t2 (strategy_prompt rb t1 t2 t3)"
  "py_in t3 (strategy_prompt rb t1 t2 t3)"
  unfolding summary_prompt_def research_prompt_def evaluation_prompt_def strategy_prompt_def
  by (rule py_in_concat, simp)+

section \<open>Properties of the extractor\<close>

text \<open>
  Claim C8, as stated, names the failure message
  "document is empty or contains no extractable text". On a document without pages the
  concatenated, trimmed text is empty and the extractor fails, but with the message of the
  source, "PDF is empty or image-only (scanned PDF not supported).".
\<close>

theorem extract_pdf_text_message_counterexample:
  "py_strip (py_join (str ''\<newline>\<newline>'') (map or_empty [])) = [] \<and>
   extract_pdf_text (\<lambda>b. Inr []) (str ''JVBERi0='') =
     Inl (ValueError (str ''PDF is empty or image-only (scanned PDF not supported).'')) \<and>
   (case extract_pdf_text (\<lambda>b. Inr []) (str ''JVBERi0='') of
      Inl e \<Rightarrow> exc_str e | Inr t \<Rightarrow> [])
     \<noteq> str ''document is empty or contains no extractable text''"
  by (simp add: extract_pdf_text_def extract_pdf_text_body_def py_strip_def EMPTY_PDF_MSG_def)

text \<open>
  Claim C8, amended: when the payload decodes and every page yields its text (a string or
  nothing), the extractor joins the page texts in page order with a blank line between
  them and trims the result; it returns that text when it is not empty, and fails
  exactly when it is empty, with the message
  "PDF is empty or image-only (scanned PDF not supported).". The result is a function of
  the payload and of what the libraries make of it.
\<close>

theorem extract_pdf_text_spec:
  assumes "lib pdf_base64 = Inr (map Inr texts)"
  shows "extract_pdf_text lib pdf_base64 =
           (if py_strip (py_join (str ''\<newline>\<newline>'') (map or_empty texts)) = []
            then Inl (ValueError (str ''PDF is empty or image-only (scanned PDF not supported).''))
            else Inr (py_strip (py_join (str ''\<newline>\<newline>'') (map or_empty texts)))) \<and>
         ((\<exists>e. extract_pdf_text lib pdf_base64 = Inl e) \<longleftrightarrow>
           py_strip (py_join (str ''\<newline>\<newline>'') (map or_empty texts)) = [])"
proof -
  have pt: "page_texts (map Inr ts) = Inr (map or_empty ts)" for ts
    by (induction ts) simp_all
  have "extract_pdf_text lib pdf_base64 =
           (if py_strip (py_join (str ''\<newline>\<newline>'') (map or_empty texts)) = []
            then Inl (ValueError (str ''PDF is empty or image-only (scanned PDF not supported).''))
            else Inr (py_strip (py_join (str ''\<newline>\<newline>'') (map or_empty texts))))"
    using assms
    by (simp add: extract_pdf_text_def extract_pdf_text_body_def pt EMPTY_PDF_MSG_def Let_def)
  then show ?thesis
    by simp
qed

theorem extract_pdf_text_spec_witness:
  "extract_pdf_text (\<lambda>b. Inr (map Inr [Some (str '' Jane Doe''), None, Some (str ''Acme '')]))
     (str ''JVBERi0='') = Inr (str ''Jane Doe\<newline>\<newline>\<newline>\<newline>Acme'')"
  using extract_pdf_text_spec [of "\<lambda>b. Inr (map Inr [Some (str '' Jane Doe''), None, Some (str ''Acme '')])"
      "str ''JVBERi0=''" "[Some (str '' Jane Doe''), None, Some (str ''Acme '')]"]
  by (simp add: py_strip_def py_isspace_def)


section \<open>The terminator\<close>




section \<open>Tokens and output of a step\<close>

lemma reload_surrogates:
  "json_reload [55357] = [55357]"
  "json_reload [56832] = [56832]"
  "json_reload [55357, 56832] = [128512]"
  "json_reload [55357, 56832, 55357, 56832] = [128512, 128512]"
  by (simp_all add: json_reload.simps is_high_def is_low_def reload_char_def)

text \<open>
  Claim C3, as stated, fails when two fragments carry the two halves of a surrogate pair.
  The stream of the step completes normally; its two token events carry the halves, each
  read back as it was sent, and its done event carries their concatenation, which any
  JSON reader reads back as the single character U+1F600. Joining the \<^verbatim>\<open>token\<close> values
  gives two code points, the \<^verbatim>\<open>output\<close> value is one.
\<close>

theorem tokens_join_counterexample:
  "reply_completes (chat split_pair_world demo_client SYS_SUMMARIZER []) \<and>
   map chunk_status
     (llm_stream split_pair_world demo_client (str ''profile_summary'') SYS_SUMMARIZER []) =
     [Some (str ''token''), Some (str ''token''), Some (str ''done'')] \<and>
   map chunk_token
     (llm_stream split_pair_world demo_client (str ''profile_summary'') SYS_SUMMARIZER []) =
     [Some [55357], Some [56832], None] \<and>
   map chunk_output
     (llm_stream split_pair_world demo_client (str ''profile_summary'') SYS_SUMMARIZER []) =
     [None, None, Some [128512]] \<and>
   concat [[55357], [56832]] \<noteq> [128512 :: nat]"
proof -
  have c: "chat split_pair_world demo_client SYS_SUMMARIZER [] =
      Streaming [[Some [55357]], [Some [56832]]] None"
    by (simp add: chat_def split_pair_world_def split_pair_backend_def)
  have r: "reply_completes (chat split_pair_world demo_client SYS_SUMMARIZER [])"
    by (simp add: c)
  show ?thesis
    using r completed_stream_fields(2,3,4) [OF r, of "str ''profile_summary''"]
    by (simp add: c reload_surrogates)
qed

text \<open>
  Claim C3, amended. When the token stream of a step completes normally, the events of
  the step are one token event per non-empty fragment, in arrival order, and then a single
  done event, built from the fragments and from their concatenation. When the fragments
  are Unicode text (they contain no surrogate code point), the \<^verbatim>\<open>token\<close> values read
  from the token events are the fragments, and joining them in emission order yields
  exactly the \<^verbatim>\<open>output\<close> value read from the done event. For arbitrary fragments the
  values read are the fragments and their concatenation as JSON reads them back.
\<close>

theorem tokens_join_to_output:
  assumes "reply_completes (chat w cl system user)"
  shows "llm_stream w cl k system user =
           map (token_event k) (reply_tokens (chat w cl system user))
           @ [done_event k (concat (reply_tokens (chat w cl system user)))] \<and>
         map chunk_status (llm_stream w cl k system user) =
           replicate (length (reply_tokens (chat w cl system user))) (Some (str ''token''))
           @ [Some (str ''done'')] \<and>
         map chunk_token (llm_stream w cl k system user) =
           map (\<lambda>t. Some (json_reload t)) (reply_tokens (chat w cl system user)) @ [None] \<and>
         map chunk_output (llm_stream w cl k system user) =
           replicate (length (reply_tokens (chat w cl system user))) None
           @ [Some (json_reload (concat (reply_tokens (chat w cl system user))))] \<and>
         (list_all unicode_text (reply_tokens (chat w cl system user)) \<longrightarrow>
            map chunk_token (llm_stream w cl k system user) =
              map Some (reply_tokens (chat w cl system user)) @ [None] \<and>
            map chunk_output (llm_stream w cl k system user) =
              replicate (length (reply_tokens (chat w cl system user))) None
              @ [Some (concat (reply_tokens (chat w cl system user)))])"
proof -
  note f = completed_stream_fields [OF assms, of k]
  have u: "list_all unicode_text (reply_tokens (chat w cl system user)) \<longrightarrow>
            map chunk_token (llm_stream w cl k system user) =
              map Some (reply_tokens (chat w cl system user)) @ [None] \<and>
            map chunk_output (llm_stream w cl k system user) =
              replicate (length (reply_tokens (chat w cl system user))) None
              @ [Some (concat (reply_tokens (chat w cl system user)))]"
  proof
    assume a: "list_all unicode_text (reply_tokens (chat w cl system user))"
    have 1: "map (\<lambda>t. Some (json_reload t)) ts = map Some ts" if "list_all unicode_text ts" for ts
      using that by (induction ts) (simp_all add: json_reload_unicode)
    have 2: "json_reload (concat (reply_tokens (chat w cl system user))) =
        concat (reply_tokens (chat w cl system user))"
      using a by (simp add: json_reload_unicode unicode_concat)
    show "map chunk_token (llm_stream w cl k system user) =
              map Some (reply_tokens (chat w cl system user)) @ [None] \<and>
            map chunk_output (llm_stream w cl k system user) =
              replicate (length (reply_tokens (chat w cl system user))) None
              @ [Some (concat (reply_tokens (chat w cl system user)))]"
      unfolding f(3,4) 1 [OF a] 2 by simp
  qed
  show ?thesis
    by (intro conjI llm_stream_completes [OF assms] f(2) f(3) f(4) u)
qed

theorem tokens_join_to_output_witness:
  "reply_completes (chat demo_world demo_client SYS_SUMMARIZER []) \<and>
   list_all unicode_text (reply_tokens (chat demo_world demo_client SYS_SUMMARIZER [])) \<and>
   map chunk_status
     (llm_stream demo_world demo_client (str ''profile_summary'') SYS_SUMMARIZER []) =
     [Some (str ''token''), Some (str ''token''), Some (str ''done'')] \<and>
   map chunk_token
     (llm_stream demo_world demo_client (str ''profile_summary'') SYS_SUMMARIZER []) =
     [Some (str ''Hi''), Some (str ''!''), None] \<and>
   map chunk_output
     (llm_stream demo_world demo_client (str ''profile_summary'') SYS_SUMMARIZER []) =
     [None, None, Some (str ''Hi!'')]"
proof -
  have c: "chat demo_world demo_client SYS_SUMMARIZER [] =
      Streaming [[Some (str ''Hi'')], [None], [Some []], [Some (str ''!'')]] None"
    by (simp add: chat_def demo_world_def demo_backend_def)
  have r: "reply_completes (chat demo_world demo_client SYS_SUMMARIZER [])"
    by (simp add: c)
  have u: "list_all unicode_text (reply_tokens (chat demo_world demo_client SYS_SUMMARIZER []))"
    by (simp add: c unicode_text_def)
  show ?thesis
    using tokens_join_to_output [OF r, of "str ''profile_summary''", THEN conjunct2] r u
    by (simp add: c reload_literal)
qed

section \<open>Failures before the first step\<close>

lemma abort_run_eq:
  "\<lparr>yields = error_events msg @ [DONE_CHUNK], calls = [], raised = None\<rparr> = abort_run msg"
  by (simp add: abort_run_def error_events_def AGENT_KEYS_def)

lemma get_client_keyless:
  "OPENAI_API_KEY (w_env w) = None \<or> OPENAI_API_KEY (w_env w) = Some [] \<Longrightarrow>
   get_client w = Inl (RuntimeError (str ''OPENAI_API_KEY is not set.''))"
  by (auto simp: get_client_def)

lemma abort_run_fields:
  "map chunk_agent (yields (abort_run msg)) =
     [Some (str ''profile_summary''), Some (str ''deep_research''), Some (str ''fitness_eval''),
      Some (str ''strategy''), None]"
  "map chunk_status (yields (abort_run msg)) =
     [Some (str ''error''), Some (str ''error''), Some (str ''error''), Some (str ''error''), None]"
  "map chunk_error (yields (abort_run msg)) =
     [Some (json_reload msg), Some (json_reload msg), Some (json_reload msg),
      Some (json_reload msg), None]"
  "map chunk_token (yields (abort_run msg)) = [None, None, None, None, None]"
  "map chunk_output (yields (abort_run msg)) = [None, None, None, None, None]"
  "calls (abort_run msg) = []"
  by (simp_all add: abort_run_def chunk_agent_event chunk_status_event chunk_agent_done
      chunk_status_done chunk_payload_event chunk_payload_absent reload_literal)

lemma reload_prefixed:
  "json_reload (str ''LinkedIn PDF: '' @ m) = str ''LinkedIn PDF: '' @ json_reload m"
  "json_reload (str ''Resume PDF: '' @ m) = str ''Resume PDF: '' @ json_reload m"
  "json_reload (str ''OPENAI_API_KEY is not set.'') = str ''OPENAI_API_KEY is not set.''"
  by (rule json_reload_append, simp add: unicode_text_def,
      rule json_reload_append, simp add: unicode_text_def,
      rule json_reload_unicode, simp add: unicode_text_def)

lemma aborted_without_model:
  assumes "run_pipeline w lp res rp = abort_run msg"
  shows "run_pipeline (w\<lparr>w_openai := other\<rparr>) lp res rp = abort_run msg"
proof (cases "accepted w lp res rp")
  case None
  then show ?thesis using assms
    by (auto simp: accepted_def run_pipeline_def get_client_def Let_def
        split: sum.splits option.splits if_splits)
next
  case (Some a)
  then obtain lt' res' cl where "accepted w lp res rp = Some (lt', res', cl)"
    by (cases a) auto
  then have "calls (run_pipeline w lp res rp) \<noteq> []"
    by (simp add: accepted_run run_agents_normal Let_def)
  then show ?thesis using assms by (simp add: abort_run_def)
qed

text \<open>
  Claim C4. If the extraction of the profile document fails, or else the extraction of a
  supplied resume document, or else the creation of the client (the credential is
  missing, or the constructor raises), the run is the aborted run: one error event for
  each of the four keys, in the order of the keys, and then the terminator. The \<^verbatim>\<open>error\<close>
  value read from each of these events is the message of the failure, prefixed by
  "LinkedIn PDF: ", by "Resume PDF: ", or not prefixed; for the missing credential it is
  "OPENAI_API_KEY is not set.". An aborted run sends no request to the model, contains no
  running, token or done event, and does not depend on the model.
\<close>

theorem failure_before_steps:
  "(extract_pdf_text (w_pdf w) lp = Inl e \<longrightarrow>
      run_pipeline w lp res rp = abort_run (str ''LinkedIn PDF: '' @ exc_str e)) \<and>
   (extract_pdf_text (w_pdf w) lp = Inr lt \<and> rp \<noteq> [] \<and> extract_pdf_text (w_pdf w) rp = Inl e \<longrightarrow>
      run_pipeline w lp res rp = abort_run (str ''Resume PDF: '' @ exc_str e)) \<and>
   (extract_pdf_text (w_pdf w) lp = Inr lt \<and> (rp \<noteq> [] \<longrightarrow> extract_pdf_text (w_pdf w) rp = Inr rt) \<and>
    (OPENAI_API_KEY (w_env w) = None \<or> OPENAI_API_KEY (w_env w) = Some []) \<longrightarrow>
      run_pipeline w lp res rp = abort_run (str ''OPENAI_API_KEY is not set.'')) \<and>
   (extract_pdf_text (w_pdf w) lp = Inr lt \<and> (rp \<noteq> [] \<longrightarrow> extract_pdf_text (w_pdf w) rp = Inr rt) \<and>
    get_client w = Inl e \<longrightarrow>
      run_pipeline w lp res rp = abort_run (exc_str e)) \<and>
   (run_pipeline w lp res rp = abort_run msg \<longrightarrow>
      run_pipeline (w\<lparr>w_openai := other\<rparr>) lp res rp = abort_run msg) \<and>
   calls (abort_run msg) = [] \<and>
   map chunk_agent (yields (abort_run msg)) =
     [Some (str ''profile_summary''), Some (str ''deep_research''), Some (str ''fitness_eval''),
      Some (str ''strategy''), None] \<and>
   map chunk_status (yields (abort_run msg)) =
     [Some (str ''error''), Some (str ''error''), Some (str ''error''), Some (str ''error''), None] \<and>
   map chunk_error (yields (abort_run msg)) =
     [Some (json_reload msg), Some (json_reload msg), Some (json_reload msg),
      Some (json_reload msg), None] \<and>
   map chunk_token (yields (abort_run msg)) = [None, None, None, None, None] \<and>
   map chunk_output (yields (abort_run msg)) = [None, None, None, None, None] \<and>
   json_reload (str ''LinkedIn PDF: '' @ m) = str ''LinkedIn PDF: '' @ json_reload m \<and>
   json_reload (str ''Resume PDF: '' @ m) = str ''Resume PDF: '' @ json_reload m \<and>
   json_reload (str ''OPENAI_API_KEY is not set.'') = str ''OPENAI_API_KEY is not set.'' \<and>
   (unicode_text m \<longrightarrow> json_reload m = m) \<and>
   last (yields (abort_run msg)) = DONE_CHUNK"
proof -
  have 1: "extract_pdf_text (w_pdf w) lp = Inl e \<longrightarrow>
      run_pipeline w lp res rp = abort_run (str ''LinkedIn PDF: '' @ exc_str e)"
    by (simp add: run_pipeline_def abort_run_eq)
  have 2: "extract_pdf_text (w_pdf w) lp = Inr lt \<and> rp \<noteq> [] \<and>
      extract_pdf_text (w_pdf w) rp = Inl e \<longrightarrow>
      run_pipeline w lp res rp = abort_run (str ''Resume PDF: '' @ exc_str e)"
    by (simp add: run_pipeline_def abort_run_eq)
  have 4: "extract_pdf_text (w_pdf w) lp = Inr lt \<and>
      (rp \<noteq> [] \<longrightarrow> extract_pdf_text (w_pdf w) rp = Inr rt) \<and> get_client w = Inl e' \<longrightarrow>
      run_pipeline w lp res rp = abort_run (exc_str e')" for e'
  proof (intro impI, elim conjE)
    assume a: "extract_pdf_text (w_pdf w) lp = Inr lt"
      "rp \<noteq> [] \<longrightarrow> extract_pdf_text (w_pdf w) rp = Inr rt"
      "get_client w = Inl e'"
    show "run_pipeline w lp res rp = abort_run (exc_str e')"
      using a by (cases "rp = []") (simp_all add: run_pipeline_def abort_run_eq)
  qed
  have 3: "extract_pdf_text (w_pdf w) lp = Inr lt \<and>
      (rp \<noteq> [] \<longrightarrow> extract_pdf_text (w_pdf w) rp = Inr rt) \<and>
      (OPENAI_API_KEY (w_env w) = None \<or> OPENAI_API_KEY (w_env w) = Some []) \<longrightarrow>
      run_pipeline w lp res rp = abort_run (str ''OPENAI_API_KEY is not set.'')"
  proof (intro impI, elim conjE)
    assume a: "extract_pdf_text (w_pdf w) lp = Inr lt"
      "rp \<noteq> [] \<longrightarrow> extract_pdf_text (w_pdf w) rp = Inr rt"
      "OPENAI_API_KEY (w_env w) = None \<or> OPENAI_API_KEY (w_env w) = Some []"
    have g: "get_client w = Inl (RuntimeError (str ''OPENAI_API_KEY is not set.''))"
      using a(3) by (rule get_client_keyless)
    show "run_pipeline w lp res rp = abort_run (str ''OPENAI_API_KEY is not set.'')"
      using 4 [of "RuntimeError (str ''OPENAI_API_KEY is not set.'')"] a(1,2) g by simp
  qed
  have 5: "run_pipeline w lp res rp = abort_run msg \<longrightarrow>
      run_pipeline (w\<lparr>w_openai := other\<rparr>) lp res rp = abort_run msg"
    using aborted_without_model by blast
  have 6: "unicode_text m \<longrightarrow> json_reload m = m"
    by (simp add: json_reload_unicode)
  have 7: "last (yields (abort_run msg)) = DONE_CHUNK"
    by (simp add: abort_run_def)
  show ?thesis
    by (intro conjI 1 2 3 4 5 6 7 abort_run_fields reload_prefixed)
qed

theorem failure_before_steps_witness:
  "extract_pdf_text (w_pdf demo_world) (str ''???'') = Inl (OtherError (str ''Incorrect padding'')) \<and>
   run_pipeline demo_world (str ''???'') [] [] =
     abort_run (str ''LinkedIn PDF: Incorrect padding'') \<and>
   map chunk_error (yields (run_pipeline demo_world (str ''???'') [] [])) =
     [Some (str ''LinkedIn PDF: Incorrect padding''), Some (str ''LinkedIn PDF: Incorrect padding''),
      Some (str ''LinkedIn PDF: Incorrect padding''), Some (str ''LinkedIn PDF: Incorrect padding''),
      None] \<and>
   extract_pdf_text (w_pdf demo_world) (str ''SmFuZQ=='') = Inr (str ''Jane Doe, HR Manager at Acme'') \<and>
   run_pipeline demo_world (str ''SmFuZQ=='') (str ''Engineer'') (str ''???'') =
     abort_run (str ''Resume PDF: Incorrect padding'') \<and>
   OPENAI_API_KEY (w_env keyless_world) = None \<and>
   run_pipeline keyless_world (str ''SmFuZQ=='') [] [] = abort_run (str ''OPENAI_API_KEY is not set.'') \<and>
   get_client clientless_world = Inl (OtherError (str ''Invalid port'')) \<and>
   run_pipeline clientless_world (str ''SmFuZQ=='') [] [] = abort_run (str ''Invalid port'') \<and>
   run_pipeline (keyless_world\<lparr>w_openai := broken_backend\<rparr>) (str ''SmFuZQ=='') [] [] =
     abort_run (str ''OPENAI_API_KEY is not set.'')"
proof -
  have bad: "extract_pdf_text demo_pdf (str ''???'') = Inl (OtherError (str ''Incorrect padding''))"
    by (simp add: extract_pdf_text_def extract_pdf_text_body_def demo_pdf_def)
  have good: "extract_pdf_text demo_pdf (str ''SmFuZQ=='') = Inr (str ''Jane Doe, HR Manager at Acme'')"
    by (simp add: extract_pdf_text_def extract_pdf_text_body_def demo_pdf_def py_strip_def
        py_isspace_def)
  have g: "get_client clientless_world = Inl (OtherError (str ''Invalid port''))"
    by (simp add: get_client_def clientless_world_def failing_constructor_def)
  note T = failure_before_steps [where m = "str ''Incorrect padding''"]
  have a: "run_pipeline demo_world (str ''???'') [] [] =
      abort_run (str ''LinkedIn PDF: Incorrect padding'')"
    using T [of demo_world "str ''???''" "OtherError (str ''Incorrect padding'')"
        "[]" "[]"] bad
    by (simp add: demo_world_def)
  have a': "map chunk_error (yields (run_pipeline demo_world (str ''???'') [] [])) =
     [Some (str ''LinkedIn PDF: Incorrect padding''), Some (str ''LinkedIn PDF: Incorrect padding''),
      Some (str ''LinkedIn PDF: Incorrect padding''), Some (str ''LinkedIn PDF: Incorrect padding''),
      None]"
    unfolding a
    using T [where msg = "str ''LinkedIn PDF: Incorrect padding''"]
    by (simp add: reload_literal)
  have b: "run_pipeline demo_world (str ''SmFuZQ=='') (str ''Engineer'') (str ''???'') =
      abort_run (str ''Resume PDF: Incorrect padding'')"
    using T [of demo_world "str ''SmFuZQ==''"
        "OtherError (str ''Incorrect padding'')" "str ''Engineer''" "str ''???''"
        "str ''Jane Doe, HR Manager at Acme''"] bad good
    by (simp add: demo_world_def)
  have c: "run_pipeline keyless_world (str ''SmFuZQ=='') [] [] =
      abort_run (str ''OPENAI_API_KEY is not set.'')"
    using T [of keyless_world "str ''SmFuZQ==''" _ "[]" "[]"
        "str ''Jane Doe, HR Manager at Acme''"] good
    by (simp add: keyless_world_def)
  have c': "run_pipeline clientless_world (str ''SmFuZQ=='') [] [] = abort_run (str ''Invalid port'')"
    using T [of clientless_world "str ''SmFuZQ==''" "OtherError (str ''Invalid port'')" "[]" "[]"
        "str ''Jane Doe, HR Manager at Acme''"] good g
    by (simp add: clientless_world_def)
  have d: "run_pipeline (keyless_world\<lparr>w_openai := broken_backend\<rparr>) (str ''SmFuZQ=='') [] [] =
      abort_run (str ''OPENAI_API_KEY is not set.'')"
    using T [where w = keyless_world and lp = "str ''SmFuZQ==''" and res = "[]" and rp = "[]"
        and msg = "str ''OPENAI_API_KEY is not set.''" and other = broken_backend] c
    by simp
  show ?thesis using a a' b c c' d g bad good by (simp add: demo_world_def keyless_world_def)
qed

section \<open>A failing step\<close>

lemma accepted_normal:
  assumes "accepted w lp res rp = Some (lt, res', cl)"
  shows "run_pipeline w lp res rp =
     (let rb = resume_block_of res';
          p1 = summary_prompt lt;
          t1 = captured (chat w cl SYS_SUMMARIZER p1);
          p2 = research_prompt t1;
          t2 = captured (chat w cl SYS_RESEARCHER p2);
          p3 = evaluation_prompt rb t1 t2;
          t3 = captured (chat w cl SYS_EVALUATOR p3);
          p4 = strategy_prompt rb t1 t2 t3
      in \<lparr>yields =
             running_event (str ''profile_summary'')
               # llm_stream w cl (str ''profile_summary'') SYS_SUMMARIZER p1
             @ running_event (str ''deep_research'')
               # llm_stream w cl (str ''deep_research'') SYS_RESEARCHER p2
             @ running_event (str ''fitness_eval'')
               # llm_stream w cl (str ''fitness_eval'') SYS_EVALUATOR p3
             @ running_event (str ''strategy'')
               # llm_stream w cl (str ''strategy'') SYS_STRATEGIST p4
             @ [DONE_CHUNK],
          calls = [(SYS_SUMMARIZER, p1), (SYS_RESEARCHER, p2), (SYS_EVALUATOR, p3),
                   (SYS_STRATEGIST, p4)],
          raised = None\<rparr>)"
  unfolding accepted_run [OF assms] run_agents_normal Let_def ..

lemma captured_unicode:
  "list_all unicode_text (reply_tokens reply) \<Longrightarrow> captured reply = concat (reply_tokens reply)"
proof -
  have "list_all unicode_text ts \<Longrightarrow> map json_reload ts = ts" for ts
    by (induction ts) (simp_all add: json_reload_unicode)
  then show "list_all unicode_text (reply_tokens reply) \<Longrightarrow> ?thesis"
    by (simp add: captured_def)
qed

lemmas demo_defs = accepted_def demo_world_def broken_world_def clientless_world_def
  extract_pdf_text_def extract_pdf_text_body_def demo_pdf_def py_strip_def py_isspace_def
  get_client_def Let_def demo_constructor_def failing_constructor_def demo_env_def
  demo_client_def

text \<open>
  Claim C5. In an accepted request the four agents always run, in order, whatever the
  replies of the model: each agent's events are its running event followed by the stream
  of its own call, the run ends with the terminator and without exception, and the prompt
  of a later agent is built from the text collected from the earlier agents' replies,
  complete or not, which it contains verbatim. A reply that does not complete normally
  yields, all under the key of its own agent, the token events of the fragments that
  arrived and then one error event, which carries an \<^verbatim>\<open>error\<close> value; it yields no done
  event. The text collected from a reply of Unicode text is the concatenation of its
  fragments.
\<close>

theorem step_failure_is_local:
  assumes "accepted w lp res rp = Some (lt, res', cl)"
  shows "run_pipeline w lp res rp =
     (let rb = resume_block_of res';
          p1 = summary_prompt lt;
          t1 = captured (chat w cl SYS_SUMMARIZER p1);
          p2 = research_prompt t1;
          t2 = captured (chat w cl SYS_RESEARCHER p2);
          p3 = evaluation_prompt rb t1 t2;
          t3 = captured (chat w cl SYS_EVALUATOR p3);
          p4 = strategy_prompt rb t1 t2 t3
      in \<lparr>yields =
             running_event (str ''profile_summary'')
               # llm_stream w cl (str ''profile_summary'') SYS_SUMMARIZER p1
             @ running_event (str ''deep_research'')
               # llm_stream w cl (str ''deep_research'') SYS_RESEARCHER p2
             @ running_event (str ''fitness_eval'')
               # llm_stream w cl (str ''fitness_eval'') SYS_EVALUATOR p3
             @ running_event (str ''strategy'')
               # llm_stream w cl (str ''strategy'') SYS_STRATEGIST p4
             @ [DONE_CHUNK],
          calls = [(SYS_SUMMARIZER, p1), (SYS_RESEARCHER, p2), (SYS_EVALUATOR, p3),
                   (SYS_STRATEGIST, p4)],
          raised = None\<rparr>) \<and>
     (\<not> reply_completes (chat w cl system user) \<longrightarrow>
        map chunk_agent (llm_stream w cl k system user) =
          replicate (Suc (length (reply_tokens (chat w cl system user)))) (Some (json_reload k)) \<and>
        map chunk_status (llm_stream w cl k system user) =
          replicate (length (reply_tokens (chat w cl system user))) (Some (str ''token''))
          @ [Some (str ''error'')] \<and>
        map chunk_token (llm_stream w cl k system user) =
          map (\<lambda>t. Some (json_reload t)) (reply_tokens (chat w cl system user)) @ [None] \<and>
        map chunk_output (llm_stream w cl k system user) =
          replicate (Suc (length (reply_tokens (chat w cl system user)))) None \<and>
        (\<exists>msg. map chunk_error (llm_stream w cl k system user) =
          replicate (length (reply_tokens (chat w cl system user))) None @ [Some msg])) \<and>
     py_in t1 (research_prompt t1) \<and>
     py_in t1 (evaluation_prompt rb t1 t2) \<and>
     py_in t2 (evaluation_prompt rb t1 t2) \<and>
     py_in t1 (strategy_prompt rb t1 t2 t3) \<and>
     py_in t2 (strategy_prompt rb t1 t2 t3) \<and>
     py_in t3 (strategy_prompt rb t1 t2 t3) \<and>
     (list_all unicode_text (reply_tokens reply) \<longrightarrow> captured reply = concat (reply_tokens reply))"
proof -
  have f: "\<not> reply_completes (chat w cl system user) \<longrightarrow>
        map chunk_agent (llm_stream w cl k system user) =
          replicate (Suc (length (reply_tokens (chat w cl system user)))) (Some (json_reload k)) \<and>
        map chunk_status (llm_stream w cl k system user) =
          replicate (length (reply_tokens (chat w cl system user))) (Some (str ''token''))
          @ [Some (str ''error'')] \<and>
        map chunk_token (llm_stream w cl k system user) =
          map (\<lambda>t. Some (json_reload t)) (reply_tokens (chat w cl system user)) @ [None] \<and>
        map chunk_output (llm_stream w cl k system user) =
          replicate (Suc (length (reply_tokens (chat w cl system user)))) None \<and>
        (\<exists>msg. map chunk_error (llm_stream w cl k system user) =
          replicate (length (reply_tokens (chat w cl system user))) None @ [Some msg])"
    using failed_stream_fields [of w cl system user k] by (rule impI)
  have u: "list_all unicode_text (reply_tokens reply) \<longrightarrow>
      captured reply = concat (reply_tokens reply)"
    using captured_unicode [of reply] by (rule impI)
  show ?thesis
    by (intro conjI accepted_normal [OF assms] f u prompts_contain)
qed

theorem step_failure_is_local_witness:
  "accepted broken_world (str ''SmFuZQ=='') [] [] =
     Some (str ''Jane Doe, HR Manager at Acme'', [], demo_client) \<and>
   \<not> reply_completes (chat broken_world demo_client SYS_SUMMARIZER
        (summary_prompt (str ''Jane Doe, HR Manager at Acme''))) \<and>
   yields (run_pipeline broken_world (str ''SmFuZQ=='') [] []) =
     [running_event (str ''profile_summary''),
      token_event (str ''profile_summary'') (str ''Hi''),
      error_event (str ''profile_summary'') (str ''Connection error.''),
      running_event (str ''deep_research''),
      token_event (str ''deep_research'') (str ''Hi''),
      error_event (str ''deep_research'') (str ''Connection error.''),
      running_event (str ''fitness_eval''),
      token_event (str ''fitness_eval'') (str ''Hi''),
      error_event (str ''fitness_eval'') (str ''Connection error.''),
      running_event (str ''strategy''),
      token_event (str ''strategy'') (str ''Hi''),
      error_event (str ''strategy'') (str ''Connection error.''),
      DONE_CHUNK] \<and>
   calls (run_pipeline broken_world (str ''SmFuZQ=='') [] []) =
     [(SYS_SUMMARIZER, summary_prompt (str ''Jane Doe, HR Manager at Acme'')),
      (SYS_RESEARCHER, research_prompt (str ''Hi'')),
      (SYS_EVALUATOR, evaluation_prompt (resume_block_of []) (str ''Hi'') (str ''Hi'')),
      (SYS_STRATEGIST, strategy_prompt (resume_block_of []) (str ''Hi'') (str ''Hi'') (str ''Hi''))] \<and>
   raised (run_pipeline broken_world (str ''SmFuZQ=='') [] []) = None \<and>
   map chunk_agent (llm_stream broken_world demo_client (str ''profile_summary'') SYS_SUMMARIZER
        (summary_prompt (str ''Jane Doe, HR Manager at Acme''))) =
     [Some (str ''profile_summary''), Some (str ''profile_summary'')] \<and>
   map chunk_status (llm_stream broken_world demo_client (str ''profile_summary'') SYS_SUMMARIZER
        (summary_prompt (str ''Jane Doe, HR Manager at Acme''))) =
     [Some (str ''token''), Some (str ''error'')] \<and>
   map chunk_token (llm_stream broken_world demo_client (str ''profile_summary'') SYS_SUMMARIZER
        (summary_prompt (str ''Jane Doe, HR Manager at Acme''))) =
     [Some (str ''Hi''), None] \<and>
   py_in (str ''Hi'') (research_prompt (str ''Hi''))"
proof -
  have a: "accepted broken_world (str ''SmFuZQ=='') [] [] =
     Some (str ''Jane Doe, HR Manager at Acme'', [], demo_client)"
    by (simp add: demo_defs)
  have c: "chat broken_world cl s u =
      Streaming [[Some (str ''Hi'')]] (Some (OtherError (str ''Connection error.'')))" for cl s u
    by (simp add: chat_def broken_world_def broken_backend_def)
  have t: "captured (Streaming [[Some (str ''Hi'')]] (Some (OtherError (str ''Connection error.''))))
      = str ''Hi''"
    by (simp add: captured_def reload_literal)
  have l: "llm_stream broken_world cl k s u =
      [token_event k (str ''Hi''), error_event k (str ''Connection error.'')]" for cl k s u
    by (simp add: llm_stream_def c)
  note T = step_failure_is_local [OF a, where system = SYS_SUMMARIZER
        and user = "summary_prompt (str ''Jane Doe, HR Manager at Acme'')"
        and k = "str ''profile_summary''"
        and reply = "Streaming [[Some (str ''Hi'')]] (Some (OtherError (str ''Connection error.'')))"
        and ?t1.0 = "str ''Hi''" and ?t2.0 = "str ''Hi''" and ?t3.0 = "str ''Hi''" and rb = "[]"]
  have n: "\<not> reply_completes (chat broken_world demo_client SYS_SUMMARIZER
        (summary_prompt (str ''Jane Doe, HR Manager at Acme'')))"
    by (simp add: c)
  have 1: "run_pipeline broken_world (str ''SmFuZQ=='') [] [] =
      \<lparr>yields =
     [running_event (str ''profile_summary''),
      token_event (str ''profile_summary'') (str ''Hi''),
      error_event (str ''profile_summary'') (str ''Connection error.''),
      running_event (str ''deep_research''),
      token_event (str ''deep_research'') (str ''Hi''),
      error_event (str ''deep_research'') (str ''Connection error.''),
      running_event (str ''fitness_eval''),
      token_event (str ''fitness_eval'') (str ''Hi''),
      error_event (str ''fitness_eval'') (str ''Connection error.''),
      running_event (str ''strategy''),
      token_event (str ''strategy'') (str ''Hi''),
      error_event (str ''strategy'') (str ''Connection error.''),
      DONE_CHUNK],
      calls =
     [(SYS_SUMMARIZER, summary_prompt (str ''Jane Doe, HR Manager at Acme'')),
      (SYS_RESEARCHER, research_prompt (str ''Hi'')),
      (SYS_EVALUATOR, evaluation_prompt (resume_block_of []) (str ''Hi'') (str ''Hi'')),
      (SYS_STRATEGIST, strategy_prompt (resume_block_of []) (str ''Hi'') (str ''Hi'') (str ''Hi''))],
      raised = None\<rparr>"
    using T [THEN conjunct1] by (simp add: Let_def c t [simplified] l)
  have 2: "map chunk_agent (llm_stream broken_world demo_client (str ''profile_summary'')
        SYS_SUMMARIZER (summary_prompt (str ''Jane Doe, HR Manager at Acme''))) =
     [Some (str ''profile_summary''), Some (str ''profile_summary'')] \<and>
   map chunk_status (llm_stream broken_world demo_client (str ''profile_summary'') SYS_SUMMARIZER
        (summary_prompt (str ''Jane Doe, HR Manager at Acme''))) =
     [Some (str ''token''), Some (str ''error'')] \<and>
   map chunk_token (llm_stream broken_world demo_client (str ''profile_summary'') SYS_SUMMARIZER
        (summary_prompt (str ''Jane Doe, HR Manager at Acme''))) =
     [Some (str ''Hi''), None]"
    using T [THEN conjunct2, THEN conjunct1] n
    by (simp add: c reload_literal)
  have 3: "py_in (str ''Hi'') (research_prompt (str ''Hi''))"
    using T [THEN conjunct2, THEN conjunct2, THEN conjunct1] .
  show ?thesis using a n 1 2 3 by simp
qed

section \<open>What the prompts are built from\<close>

text \<open>
  Claim C6. In an accepted request the second request to the model carries the system
  prompt of the researcher and the user prompt \<open>research_prompt\<close> of the text collected from
  the first agent, and of nothing else: two accepted runs, with any documents, resumes,
  environments and models, that collect the same text from the first agent send the same
  second request. That user prompt contains the collected text verbatim.
\<close>

theorem research_prompt_from_summary_only:
  assumes "accepted w lp res rp = Some (lt, res', cl)"
    and "accepted w' lp' res2 rp' = Some (lt', res2', cl')"
    and "captured (chat w cl SYS_SUMMARIZER (summary_prompt lt)) =
         captured (chat w' cl' SYS_SUMMARIZER (summary_prompt lt'))"
  shows "calls (run_pipeline w lp res rp) ! 1 =
           (SYS_RESEARCHER,
            research_prompt (captured (chat w cl SYS_SUMMARIZER (summary_prompt lt)))) \<and>
         calls (run_pipeline w lp res rp) ! 1 = calls (run_pipeline w' lp' res2 rp') ! 1 \<and>
         py_in (captured (chat w cl SYS_SUMMARIZER (summary_prompt lt)))
           (snd (calls (run_pipeline w lp res rp) ! 1))"
  using assms(3) prompts_contain(2) [of "captured (chat w cl SYS_SUMMARIZER (summary_prompt lt))"]
  by (simp add: accepted_normal [OF assms(1)] accepted_normal [OF assms(2)] Let_def)

theorem research_prompt_from_summary_only_witness:
  "accepted demo_world (str ''SmFuZQ=='') [] [] =
     Some (str ''Jane Doe, HR Manager at Acme'', [], demo_client) \<and>
   accepted demo_world (str ''Sm9l'') (str ''Engineer'') [] =
     Some (str ''Joe Bloggs, Recruiter at Initech'', str ''Engineer'', demo_client) \<and>
   calls (run_pipeline demo_world (str ''SmFuZQ=='') [] []) ! 1 =
     (SYS_RESEARCHER, research_prompt (str ''Hi!'')) \<and>
   calls (run_pipeline demo_world (str ''SmFuZQ=='') [] []) ! 1 =
     calls (run_pipeline demo_world (str ''Sm9l'') (str ''Engineer'') []) ! 1"
proof -
  have a: "accepted demo_world (str ''SmFuZQ=='') [] [] =
     Some (str ''Jane Doe, HR Manager at Acme'', [], demo_client)"
    by (simp add: demo_defs)
  have b: "accepted demo_world (str ''Sm9l'') (str ''Engineer'') [] =
     Some (str ''Joe Bloggs, Recruiter at Initech'', str ''Engineer'', demo_client)"
    by (simp add: demo_defs)
  have c: "captured (chat demo_world cl s u) = str ''Hi!''" for cl s u
    by (simp add: chat_def demo_world_def demo_backend_def captured_def reload_literal)
  show ?thesis
    using research_prompt_from_summary_only [OF a b] a b c by auto
qed

section \<open>The resume block\<close>

text \<open>
  Claim C7. In an accepted request the third and the fourth request to the model carry
  the evaluation prompt and the strategy prompt built with the resume block. The resume
  text is the text extracted from the resume document when one is supplied, whatever
  resume text was supplied with it, and the supplied resume text otherwise. The block is
  "CANDIDATE RESUME:", a line break and the resume text unchanged when the resume text is
  not empty after trimming, and the fixed sentence
  "No resume provided (em dash) evaluate generally." otherwise. Both prompts contain the
  block they are built with verbatim, and a block made from a resume text contains that
  text.
\<close>

theorem resume_block_in_prompts:
  assumes "accepted w lp res rp = Some (lt, res', cl)"
  shows "(rp \<noteq> [] \<longrightarrow> extract_pdf_text (w_pdf w) rp = Inr res') \<and>
         (rp = [] \<longrightarrow> res' = res) \<and>
         (let t1 = captured (chat w cl SYS_SUMMARIZER (summary_prompt lt));
              t2 = captured (chat w cl SYS_RESEARCHER (research_prompt t1));
              t3 = captured (chat w cl SYS_EVALUATOR
                     (evaluation_prompt (resume_block_of res') t1 t2))
          in calls (run_pipeline w lp res rp) ! 2 =
               (SYS_EVALUATOR, evaluation_prompt (resume_block_of res') t1 t2) \<and>
             calls (run_pipeline w lp res rp) ! 3 =
               (SYS_STRATEGIST, strategy_prompt (resume_block_of res') t1 t2 t3)) \<and>
         resume_block_of res' =
           (if py_strip res' \<noteq> [] then str ''CANDIDATE RESUME:\<newline>'' @ res'
            else str ''No resume provided '' @ [8212] @ str '' evaluate generally.'') \<and>
         py_in rb (evaluation_prompt rb a b) \<and>
         py_in rb (strategy_prompt rb a b c) \<and>
         (py_strip res' \<noteq> [] \<longrightarrow> py_in res' (resume_block_of res'))"
proof -
  have 1: "(rp \<noteq> [] \<longrightarrow> extract_pdf_text (w_pdf w) rp = Inr res') \<and> (rp = [] \<longrightarrow> res' = res)"
    using assms by (auto simp: accepted_def split: sum.splits if_splits)
  have 2: "let t1 = captured (chat w cl SYS_SUMMARIZER (summary_prompt lt));
              t2 = captured (chat w cl SYS_RESEARCHER (research_prompt t1));
              t3 = captured (chat w cl SYS_EVALUATOR
                     (evaluation_prompt (resume_block_of res') t1 t2))
          in calls (run_pipeline w lp res rp) ! 2 =
               (SYS_EVALUATOR, evaluation_prompt (resume_block_of res') t1 t2) \<and>
             calls (run_pipeline w lp res rp) ! 3 =
               (SYS_STRATEGIST, strategy_prompt (resume_block_of res') t1 t2 t3)"
    unfolding accepted_normal [OF assms] Let_def by simp
  have 3: "resume_block_of res' =
           (if py_strip res' \<noteq> [] then str ''CANDIDATE RESUME:\<newline>'' @ res'
            else str ''No resume provided '' @ [8212] @ str '' evaluate generally.'')"
    by (simp only: resume_block_of_def)
  have 4: "py_strip res' \<noteq> [] \<longrightarrow> py_in res' (resume_block_of res')"
    using py_in_append [of res' "str ''CANDIDATE RESUME:\<newline>''" "[]"]
    by (simp add: resume_block_of_def)
  show ?thesis
    by (intro conjI 1 [THEN conjunct1] 1 [THEN conjunct2] 2 3 4 prompts_contain)
qed

theorem resume_block_in_prompts_witness:
  "accepted demo_world (str ''SmFuZQ=='') (str ''typed resume'') (str ''Sm9l'') =
     Some (str ''Jane Doe, HR Manager at Acme'', str ''Joe Bloggs, Recruiter at Initech'',
           demo_client) \<and>
   calls (run_pipeline demo_world (str ''SmFuZQ=='') (str ''typed resume'') (str ''Sm9l'')) ! 2 =
     (SYS_EVALUATOR,
      evaluation_prompt (str ''CANDIDATE RESUME:\<newline>Joe Bloggs, Recruiter at Initech'')
        (str ''Hi!'') (str ''Hi!'')) \<and>
   resume_block_of (str ''  '') = str ''No resume provided '' @ [8212] @ str '' evaluate generally.''"
proof -
  have a: "accepted demo_world (str ''SmFuZQ=='') (str ''typed resume'') (str ''Sm9l'') =
     Some (str ''Jane Doe, HR Manager at Acme'', str ''Joe Bloggs, Recruiter at Initech'',
           demo_client)"
    by (simp add: demo_defs)
  have c: "captured (chat demo_world cl s u) = str ''Hi!''" for cl s u
    by (simp add: chat_def demo_world_def demo_backend_def captured_def reload_literal)
  have e: "resume_block_of (str ''  '') =
      str ''No resume provided '' @ [8212] @ str '' evaluate generally.''"
    by (simp add: resume_block_of_def py_strip_def py_isspace_def)
  have "calls (run_pipeline demo_world (str ''SmFuZQ=='') (str ''typed resume'') (str ''Sm9l'')) ! 2 =
     (SYS_EVALUATOR,
      evaluation_prompt (str ''CANDIDATE RESUME:\<newline>Joe Bloggs, Recruiter at Initech'')
        (str ''Hi!'') (str ''Hi!''))"
    using resume_block_in_prompts [OF a, where rb = "[]" and a = "[]" and b = "[]" and c = "[]"]
    by (simp add: Let_def c py_strip_def py_isspace_def)
  then show ?thesis using a e by simp
qed

section \<open>The events of one key\<close>

lemma key_events_aborted:
  "key_events (str ''profile_summary'') (yields (abort_run msg)) =
     [error_event (str ''profile_summary'') msg]"
  "key_events (str ''deep_research'') (yields (abort_run msg)) =
     [error_event (str ''deep_research'') msg]"
  "key_events (str ''fitness_eval'') (yields (abort_run msg)) =
     [error_event (str ''fitness_eval'') msg]"
  "key_events (str ''strategy'') (yields (abort_run msg)) = [error_event (str ''strategy'') msg]"
  by (simp_all add: abort_run_def key_events_Cons key_events_Nil chunk_agent_event
      chunk_agent_done reload_literal)

lemma key_events_agents:
  "key_events (str ''profile_summary'') (yields (run_agents w cl lt rb)) =
     running_event (str ''profile_summary'')
     # llm_stream w cl (str ''profile_summary'') (fst (calls (run_agents w cl lt rb) ! 0))
         (snd (calls (run_agents w cl lt rb) ! 0))"
  "key_events (str ''deep_research'') (yields (run_agents w cl lt rb)) =
     running_event (str ''deep_research'')
     # llm_stream w cl (str ''deep_research'') (fst (calls (run_agents w cl lt rb) ! 1))
         (snd (calls (run_agents w cl lt rb) ! 1))"
  "key_events (str ''fitness_eval'') (yields (run_agents w cl lt rb)) =
     running_event (str ''fitness_eval'')
     # llm_stream w cl (str ''fitness_eval'') (fst (calls (run_agents w cl lt rb) ! 2))
         (snd (calls (run_agents w cl lt rb) ! 2))"
  "key_events (str ''strategy'') (yields (run_agents w cl lt rb)) =
     running_event (str ''strategy'')
     # llm_stream w cl (str ''strategy'') (fst (calls (run_agents w cl lt rb) ! 3))
         (snd (calls (run_agents w cl lt rb) ! 3))"
  by (simp_all add: run_agents_normal Let_def key_events_Cons key_events_Nil key_events_append
      key_events_llm_stream chunk_agent_event chunk_agent_done reload_literal)

lemma step_events_shape:
  "\<exists>t. running_event k # llm_stream w cl k s u =
         running_event k # map (token_event k) (reply_tokens (chat w cl s u)) @ [t] \<and>
       (chunk_status t = Some (str ''done'') \<or> chunk_status t = Some (str ''error''))"
proof -
  obtain t where t: "(\<exists>out. t = done_event k out) \<or> (\<exists>msg. t = error_event k msg)"
    and eq: "llm_stream w cl k s u = map (token_event k) (reply_tokens (chat w cl s u)) @ [t]"
    using llm_stream_shape [where k = k and w = w and cl = cl and s = s and u = u]
    by (elim exE conjE)
  have st: "chunk_status t = Some (str ''done'') \<or> chunk_status t = Some (str ''error'')"
    using t by (elim disjE exE) (simp_all add: chunk_status_event)
  have 1: "running_event k # llm_stream w cl k s u =
         running_event k # map (token_event k) (reply_tokens (chat w cl s u)) @ [t]"
    unfolding eq ..
  show ?thesis
    by (rule exI [of _ t]) (intro conjI 1 st)
qed

lemma step_status_shape:
  "\<exists>st. (st = str ''done'' \<or> st = str ''error'') \<and>
     map chunk_status (running_event k # llm_stream w cl k s u) =
       Some (str ''running'')
       # replicate (length (reply_tokens (chat w cl s u))) (Some (str ''token''))
       @ [Some st]"
proof -
  obtain t where eq: "running_event k # llm_stream w cl k s u =
         running_event k # map (token_event k) (reply_tokens (chat w cl s u)) @ [t]"
    and st: "chunk_status t = Some (str ''done'') \<or> chunk_status t = Some (str ''error'')"
    using step_events_shape [of k w cl s u] by (elim exE conjE)
  have m: "map (chunk_status \<circ> token_event k) ts = replicate (length ts) (Some (str ''token''))"
    for ts
    by (induction ts) (simp_all add: chunk_status_event)
  from st show ?thesis
  proof
    assume "chunk_status t = Some (str ''done'')"
    then show ?thesis unfolding eq
      by (intro exI [of _ "str ''done''"]) (simp add: m chunk_status_event)
  next
    assume "chunk_status t = Some (str ''error'')"
    then show ?thesis unfolding eq
      by (intro exI [of _ "str ''error''"]) (simp add: m chunk_status_event)
  qed
qed

text \<open>
  Claim C1, as stated, fails on every aborted run: when the profile document cannot be
  read, the events of the key \<open>profile_summary\<close> are one error event, with no running
  event before it.
\<close>

theorem key_events_counterexample:
  "key_events (str ''profile_summary'') (yields (run_pipeline demo_world (str ''???'') [] [])) =
     [error_event (str ''profile_summary'') (str ''LinkedIn PDF: Incorrect padding'')] \<and>
   map chunk_status
     (key_events (str ''profile_summary'') (yields (run_pipeline demo_world (str ''???'') [] []))) =
     [Some (str ''error'')] \<and>
   Some (str ''running'') \<notin> set (map chunk_status
     (key_events (str ''profile_summary'') (yields (run_pipeline demo_world (str ''???'') [] []))))"
proof -
  have "run_pipeline demo_world (str ''???'') [] [] =
      abort_run (str ''LinkedIn PDF: Incorrect padding'')"
    by (simp add: run_pipeline_def demo_defs abort_run_eq [symmetric])
  then show ?thesis
    by (simp add: key_events_aborted [simplified] chunk_status_event)
qed

text \<open>
  Claim C1, amended. For each of the four step keys, the events of that key in the stream
  of a run are: in a request that is not accepted, exactly one error event; in an accepted
  request, exactly one running event, followed by one token event for each non-empty
  fragment of the reply to that step's request, in arrival order, followed by exactly one
  terminal event, which is a done event or an error event.
\<close>

theorem key_event_sequence:
  assumes "i < 4"
  shows "(accepted w lp res rp = None \<longrightarrow>
            (\<exists>msg. key_events (AGENT_KEYS ! i) (yields (run_pipeline w lp res rp)) =
                      [error_event (AGENT_KEYS ! i) msg]) \<and>
            map chunk_status (key_events (AGENT_KEYS ! i) (yields (run_pipeline w lp res rp))) =
              [Some (str ''error'')]) \<and>
         (accepted w lp res rp = Some (lt, res', cl) \<longrightarrow>
            (\<exists>t. key_events (AGENT_KEYS ! i) (yields (run_pipeline w lp res rp)) =
                   running_event (AGENT_KEYS ! i)
                   # map (token_event (AGENT_KEYS ! i))
                       (reply_tokens (chat w cl (fst (calls (run_pipeline w lp res rp) ! i))
                                               (snd (calls (run_pipeline w lp res rp) ! i))))
                   @ [t] \<and>
                 (chunk_status t = Some (str ''done'') \<or> chunk_status t = Some (str ''error''))) \<and>
            (\<exists>st. (st = str ''done'' \<or> st = str ''error'') \<and>
               map chunk_status (key_events (AGENT_KEYS ! i) (yields (run_pipeline w lp res rp))) =
                 Some (str ''running'')
                 # replicate
                     (length (reply_tokens (chat w cl (fst (calls (run_pipeline w lp res rp) ! i))
                                                     (snd (calls (run_pipeline w lp res rp) ! i)))))
                     (Some (str ''token''))
                 @ [Some st]))"
proof -
  from assms have i: "i = 0 \<or> i = 1 \<or> i = 2 \<or> i = 3" by arith
  have keys: "AGENT_KEYS ! 0 = str ''profile_summary''" "AGENT_KEYS ! 1 = str ''deep_research''"
    "AGENT_KEYS ! 2 = str ''fitness_eval''" "AGENT_KEYS ! 3 = str ''strategy''"
    by (simp_all add: AGENT_KEYS_def)
  have none: "accepted w lp res rp = None \<longrightarrow>
            (\<exists>msg. key_events (AGENT_KEYS ! i) (yields (run_pipeline w lp res rp)) =
                      [error_event (AGENT_KEYS ! i) msg]) \<and>
            map chunk_status (key_events (AGENT_KEYS ! i) (yields (run_pipeline w lp res rp))) =
              [Some (str ''error'')]"
  proof
    assume "accepted w lp res rp = None"
    then obtain msg where r: "run_pipeline w lp res rp = abort_run msg"
      using rejected_run by blast
    have "key_events (AGENT_KEYS ! i) (yields (abort_run msg)) = [error_event (AGENT_KEYS ! i) msg]"
      using i by (elim disjE) (simp_all only: keys key_events_aborted)
    then show "(\<exists>msg. key_events (AGENT_KEYS ! i) (yields (run_pipeline w lp res rp)) =
                      [error_event (AGENT_KEYS ! i) msg]) \<and>
            map chunk_status (key_events (AGENT_KEYS ! i) (yields (run_pipeline w lp res rp))) =
              [Some (str ''error'')]"
      unfolding r by (intro conjI exI [of _ msg]) (simp_all add: chunk_status_event)
  qed
  have some: "accepted w lp res rp = Some (lt, res', cl) \<longrightarrow>
            (\<exists>t. key_events (AGENT_KEYS ! i) (yields (run_pipeline w lp res rp)) =
                   running_event (AGENT_KEYS ! i)
                   # map (token_event (AGENT_KEYS ! i))
                       (reply_tokens (chat w cl (fst (calls (run_pipeline w lp res rp) ! i))
                                               (snd (calls (run_pipeline w lp res rp) ! i))))
                   @ [t] \<and>
                 (chunk_status t = Some (str ''done'') \<or> chunk_status t = Some (str ''error''))) \<and>
            (\<exists>st. (st = str ''done'' \<or> st = str ''error'') \<and>
               map chunk_status (key_events (AGENT_KEYS ! i) (yields (run_pipeline w lp res rp))) =
                 Some (str ''running'')
                 # replicate
                     (length (reply_tokens (chat w cl (fst (calls (run_pipeline w lp res rp) ! i))
                                                     (snd (calls (run_pipeline w lp res rp) ! i)))))
                     (Some (str ''token''))
                 @ [Some st])"
  proof
    assume a: "accepted w lp res rp = Some (lt, res', cl)"
    let ?r = "run_agents w cl lt (resume_block_of res')"
    have r: "run_pipeline w lp res rp = ?r" using a by (rule accepted_run)
    have ev: "key_events (AGENT_KEYS ! i) (yields ?r) =
        running_event (AGENT_KEYS ! i)
        # llm_stream w cl (AGENT_KEYS ! i) (fst (calls ?r ! i)) (snd (calls ?r ! i))"
      using i by (elim disjE) (simp_all only: keys key_events_agents)
    show "(\<exists>t. key_events (AGENT_KEYS ! i) (yields (run_pipeline w lp res rp)) =
                   running_event (AGENT_KEYS ! i)
                   # map (token_event (AGENT_KEYS ! i))
                       (reply_tokens (chat w cl (fst (calls (run_pipeline w lp res rp) ! i))
                                               (snd (calls (run_pipeline w lp res rp) ! i))))
                   @ [t] \<and>
                 (chunk_status t = Some (str ''done'') \<or> chunk_status t = Some (str ''error''))) \<and>
            (\<exists>st. (st = str ''done'' \<or> st = str ''error'') \<and>
               map chunk_status (key_events (AGENT_KEYS ! i) (yields (run_pipeline w lp res rp))) =
                 Some (str ''running'')
                 # replicate
                     (length (reply_tokens (chat w cl (fst (calls (run_pipeline w lp res rp) ! i))
                                                     (snd (calls (run_pipeline w lp res rp) ! i)))))
                     (Some (str ''token''))
                 @ [Some st])"
    proof -
      obtain t where t1: "running_event (AGENT_KEYS ! i)
            # llm_stream w cl (AGENT_KEYS ! i) (fst (calls ?r ! i)) (snd (calls ?r ! i)) =
          running_event (AGENT_KEYS ! i)
            # map (token_event (AGENT_KEYS ! i))
                (reply_tokens (chat w cl (fst (calls ?r ! i)) (snd (calls ?r ! i)))) @ [t]"
        and t2: "chunk_status t = Some (str ''done'') \<or> chunk_status t = Some (str ''error'')"
        using step_events_shape [of "AGENT_KEYS ! i" w cl "fst (calls ?r ! i)"
            "snd (calls ?r ! i)"]
        by (elim exE conjE)
      note t3 = step_status_shape [of "AGENT_KEYS ! i" w cl "fst (calls ?r ! i)"
            "snd (calls ?r ! i)"]
      show ?thesis unfolding r ev
        by (intro conjI exI [of _ t] t1 t2 t3)
    qed
  qed
  show ?thesis using none some by (rule conjI)
qed

theorem key_event_sequence_witness:
  "(2::nat) < 4 \<and>
   accepted demo_world (str ''SmFuZQ=='') [] [] =
     Some (str ''Jane Doe, HR Manager at Acme'', [], demo_client) \<and>
   (\<exists>st. (st = str ''done'' \<or> st = str ''error'') \<and>
      map chunk_status
        (key_events (AGENT_KEYS ! 2) (yields (run_pipeline demo_world (str ''SmFuZQ=='') [] []))) =
      [Some (str ''running''), Some (str ''token''), Some (str ''token''), Some st]) \<and>
   accepted demo_world (str ''???'') [] [] = None \<and>
   map chunk_status
     (key_events (AGENT_KEYS ! 2) (yields (run_pipeline demo_world (str ''???'') [] []))) =
     [Some (str ''error'')] \<and>
   accepted clientless_world (str ''SmFuZQ=='') [] [] = None \<and>
   map chunk_status
     (key_events (AGENT_KEYS ! 0)
        (yields (run_pipeline clientless_world (str ''SmFuZQ=='') [] []))) =
     [Some (str ''error'')]"
proof -
  have a: "accepted demo_world (str ''SmFuZQ=='') [] [] =
     Some (str ''Jane Doe, HR Manager at Acme'', [], demo_client)"
    by (simp add: demo_defs)
  have n: "accepted demo_world (str ''???'') [] [] = None"
    by (simp add: demo_defs)
  have c: "reply_tokens (chat demo_world cl s u) = [str ''Hi'', str ''!'']" for cl s u
    by (simp add: chat_def demo_world_def demo_backend_def)
  have 1: "\<exists>st. (st = str ''done'' \<or> st = str ''error'') \<and>
      map chunk_status
        (key_events (AGENT_KEYS ! 2) (yields (run_pipeline demo_world (str ''SmFuZQ=='') [] []))) =
      [Some (str ''running''), Some (str ''token''), Some (str ''token''), Some st]"
    using key_event_sequence [of 2 demo_world "str ''SmFuZQ==''" "[]" "[]"
        "str ''Jane Doe, HR Manager at Acme''" "[]" demo_client] a
    by (simp add: c [simplified])
  have 2: "map chunk_status
     (key_events (AGENT_KEYS ! 2) (yields (run_pipeline demo_world (str ''???'') [] []))) =
     [Some (str ''error'')]"
    using key_event_sequence [of 2 demo_world "str ''???''" "[]" "[]"] n
    by simp
  have m: "accepted clientless_world (str ''SmFuZQ=='') [] [] = None"
    by (simp add: demo_defs)
  have 3: "map chunk_status
     (key_events (AGENT_KEYS ! 0)
        (yields (run_pipeline clientless_world (str ''SmFuZQ=='') [] []))) =
     [Some (str ''error'')]"
    using key_event_sequence [of 0 clientless_world "str ''SmFuZQ==''" "[]" "[]"] m
    by simp
  show ?thesis using a n m 1 2 3 by simp
qed

section \<open>The token mark\<close>

text \<open>
  Claim C10, as stated, fails for a step that completes normally when its fragments hold
  surrogate code points. Here the reply has three fragments: a surrogate pair, then its
  two halves one by one. The collecting loop reads the first token event back as the
  single character U+1F600 and the other two as the halves, so the text it collects has
  three code points. The \<^verbatim>\<open>output\<close> that \<^verbatim>\<open>llm_stream\<close> puts in the done event, the
  concatenation of the fragments, has four, and the \<^verbatim>\<open>output\<close> read from the done event
  has two. The collected text is neither.
\<close>

theorem captured_text_counterexample:
  "reply_completes (chat pairs_world demo_client SYS_SUMMARIZER []) \<and>
   capture_loop []
     (llm_stream pairs_world demo_client (str ''profile_summary'') SYS_SUMMARIZER []) =
     (llm_stream pairs_world demo_client (str ''profile_summary'') SYS_SUMMARIZER [],
      Inr [[128512], [55357], [56832]]) \<and>
   last (llm_stream pairs_world demo_client (str ''profile_summary'') SYS_SUMMARIZER []) =
     done_event (str ''profile_summary'') [55357, 56832, 55357, 56832] \<and>
   chunk_output
     (last (llm_stream pairs_world demo_client (str ''profile_summary'') SYS_SUMMARIZER [])) =
     Some [128512, 128512] \<and>
   concat [[128512], [55357], [56832]] \<noteq> [55357, 56832, 55357, 56832 :: nat] \<and>
   concat [[128512], [55357], [56832]] \<noteq> [128512, 128512 :: nat]"
proof -
  have c: "chat pairs_world demo_client SYS_SUMMARIZER [] =
      Streaming [[Some [55357, 56832]], [Some [55357]], [Some [56832]]] None"
    by (simp add: chat_def pairs_world_def pairs_backend_def)
  have r: "reply_completes (chat pairs_world demo_client SYS_SUMMARIZER [])"
    by (simp add: c)
  have 1: "capture_loop []
     (llm_stream pairs_world demo_client (str ''profile_summary'') SYS_SUMMARIZER []) =
     (llm_stream pairs_world demo_client (str ''profile_summary'') SYS_SUMMARIZER [],
      Inr [[128512], [55357], [56832]])"
    unfolding capture_llm_stream by (simp add: c reload_surrogates)
  have 2: "last (llm_stream pairs_world demo_client (str ''profile_summary'') SYS_SUMMARIZER []) =
     done_event (str ''profile_summary'') [55357, 56832, 55357, 56832]"
    unfolding llm_stream_completes [OF r] by (simp add: c)
  have 3: "chunk_output (done_event (str ''profile_summary'') [55357, 56832, 55357, 56832]) =
      Some [128512, 128512]"
    unfolding chunk_payload_event by (simp add: reload_surrogates)
  show ?thesis
    unfolding 2 using r 1 3 by simp
qed

text \<open>
  Claim C10, amended. The test \<^verbatim>\<open>'"status": "token"' in chunk\<close> holds for every token
  event and for no running, done or error event, whatever the agent key and whatever text
  the event carries, because serialization writes every quote of a string after a
  backslash. So the collecting loop parses the token events of a step and nothing else, it
  never raises on the stream of a step, and what it collects are the fragments read back
  from their serialization. For a step whose reply completes normally and whose fragments
  are Unicode text (they contain no surrogate code point), the text collected is the
  concatenation of the fragments, which is the \<^verbatim>\<open>output\<close> that \<^verbatim>\<open>llm_stream\<close> puts in the
  done event ending the stream of the step, and also the \<^verbatim>\<open>output\<close> read from that event.
  For arbitrary fragments of such a step the \<^verbatim>\<open>output\<close> read from the done event is the
  concatenation of the fragments as JSON reads it back.
\<close>

theorem token_mark_selects_token_events:
  "py_in TOKEN_MARK (token_event k t) \<and>
   \<not> py_in TOKEN_MARK (running_event k) \<and>
   \<not> py_in TOKEN_MARK (done_event k out) \<and>
   \<not> py_in TOKEN_MARK (error_event k msg) \<and>
   capture_loop [] (llm_stream w cl k system user) =
     (llm_stream w cl k system user,
      Inr (map json_reload (reply_tokens (chat w cl system user)))) \<and>
   (reply_completes (chat w cl system user) \<longrightarrow>
      last (llm_stream w cl k system user) =
        done_event k (concat (reply_tokens (chat w cl system user))) \<and>
      chunk_status (last (llm_stream w cl k system user)) = Some (str ''done'') \<and>
      chunk_output (last (llm_stream w cl k system user)) =
        Some (json_reload (concat (reply_tokens (chat w cl system user))))) \<and>
   (reply_completes (chat w cl system user) \<and>
    list_all unicode_text (reply_tokens (chat w cl system user)) \<longrightarrow>
      (\<exists>collected.
         capture_loop [] (llm_stream w cl k system user) =
           (llm_stream w cl k system user, Inr collected) \<and>
         concat collected = concat (reply_tokens (chat w cl system user)) \<and>
         chunk_output (last (llm_stream w cl k system user)) = Some (concat collected) \<and>
         last (llm_stream w cl k system user) = done_event k (concat collected)))"
proof -
  have l: "last (llm_stream w cl k system user) =
        done_event k (concat (reply_tokens (chat w cl system user)))"
    if "reply_completes (chat w cl system user)"
    unfolding llm_stream_completes [OF that] by simp
  have 1: "reply_completes (chat w cl system user) \<longrightarrow>
      last (llm_stream w cl k system user) =
        done_event k (concat (reply_tokens (chat w cl system user))) \<and>
      chunk_status (last (llm_stream w cl k system user)) = Some (str ''done'') \<and>
      chunk_output (last (llm_stream w cl k system user)) =
        Some (json_reload (concat (reply_tokens (chat w cl system user))))"
  proof
    assume c: "reply_completes (chat w cl system user)"
    show "last (llm_stream w cl k system user) =
        done_event k (concat (reply_tokens (chat w cl system user))) \<and>
      chunk_status (last (llm_stream w cl k system user)) = Some (str ''done'') \<and>
      chunk_output (last (llm_stream w cl k system user)) =
        Some (json_reload (concat (reply_tokens (chat w cl system user))))"
      unfolding l [OF c] by (simp add: chunk_status_event chunk_payload_event)
  qed
  have 2: "reply_completes (chat w cl system user) \<and>
    list_all unicode_text (reply_tokens (chat w cl system user)) \<longrightarrow>
      (\<exists>collected.
         capture_loop [] (llm_stream w cl k system user) =
           (llm_stream w cl k system user, Inr collected) \<and>
         concat collected = concat (reply_tokens (chat w cl system user)) \<and>
         chunk_output (last (llm_stream w cl k system user)) = Some (concat collected) \<and>
         last (llm_stream w cl k system user) = done_event k (concat collected))"
  proof (intro impI, elim conjE)
    assume c: "reply_completes (chat w cl system user)"
      and u: "list_all unicode_text (reply_tokens (chat w cl system user))"
    have r: "map json_reload (reply_tokens (chat w cl system user)) =
        reply_tokens (chat w cl system user)"
      using u by (rule reload_unicode_list)
    have o: "json_reload (concat (reply_tokens (chat w cl system user))) =
        concat (reply_tokens (chat w cl system user))"
      using u by (intro json_reload_unicode unicode_concat)
    have e: "chunk_output (last (llm_stream w cl k system user)) =
        Some (concat (reply_tokens (chat w cl system user)))"
      unfolding l [OF c] chunk_payload_event o ..
    have p: "capture_loop [] (llm_stream w cl k system user) =
        (llm_stream w cl k system user, Inr (reply_tokens (chat w cl system user)))"
      unfolding capture_llm_stream r ..
    show "\<exists>collected.
         capture_loop [] (llm_stream w cl k system user) =
           (llm_stream w cl k system user, Inr collected) \<and>
         concat collected = concat (reply_tokens (chat w cl system user)) \<and>
         chunk_output (last (llm_stream w cl k system user)) = Some (concat collected) \<and>
         last (llm_stream w cl k system user) = done_event k (concat collected)"
      by (rule exI [of _ "reply_tokens (chat w cl system user)"])
        (intro conjI p refl e l [OF c])
  qed
  show ?thesis
    by (intro conjI mark_token mark_done mark_error mark_running capture_llm_stream 1 2)
qed

theorem token_mark_selects_token_events_witness:
  \<open>\<not> py_in TOKEN_MARK (done_event (str ''profile_summary'') (str ''so "status": "token" it is'')) \<and>
   \<not> py_in TOKEN_MARK (error_event (str ''profile_summary'') (str ''"status": "token"'')) \<and>
   py_in TOKEN_MARK (token_event (str ''profile_summary'') (str ''"'')) \<and>
   reply_completes (chat demo_world demo_client SYS_SUMMARIZER []) \<and>
   list_all unicode_text (reply_tokens (chat demo_world demo_client SYS_SUMMARIZER [])) \<and>
   (\<exists>collected.
      capture_loop []
        (llm_stream demo_world demo_client (str ''profile_summary'') SYS_SUMMARIZER []) =
        (llm_stream demo_world demo_client (str ''profile_summary'') SYS_SUMMARIZER [],
         Inr collected) \<and>
      concat collected = str ''Hi!'' \<and>
      chunk_output
        (last (llm_stream demo_world demo_client (str ''profile_summary'') SYS_SUMMARIZER [])) =
        Some (concat collected) \<and>
      last (llm_stream demo_world demo_client (str ''profile_summary'') SYS_SUMMARIZER []) =
        done_event (str ''profile_summary'') (concat collected))\<close>
proof -
  have c: "chat demo_world demo_client SYS_SUMMARIZER [] =
      Streaming [[Some (str ''Hi'')], [None], [Some []], [Some (str ''!'')]] None"
    by (simp add: chat_def demo_world_def demo_backend_def)
  have 1: "reply_completes (chat demo_world demo_client SYS_SUMMARIZER []) \<and>
      list_all unicode_text (reply_tokens (chat demo_world demo_client SYS_SUMMARIZER []))"
    by (simp add: c unicode_text_def)
  have 3: "concat (reply_tokens (chat demo_world demo_client SYS_SUMMARIZER [])) = str ''Hi!''"
    by (simp add: c)
  note T = token_mark_selects_token_events [where k = "str ''profile_summary''"
      and t = \<open>str ''"''\<close> and out = \<open>str ''so "status": "token" it is''\<close>
      and msg = \<open>str ''"status": "token"''\<close> and w = demo_world and cl = demo_client
      and system = SYS_SUMMARIZER and user = "[]"]
  have 4: "\<exists>collected.
      capture_loop []
        (llm_stream demo_world demo_client (str ''profile_summary'') SYS_SUMMARIZER []) =
        (llm_stream demo_world demo_client (str ''profile_summary'') SYS_SUMMARIZER [],
         Inr collected) \<and>
      concat collected = str ''Hi!'' \<and>
      chunk_output
        (last (llm_stream demo_world demo_client (str ''profile_summary'') SYS_SUMMARIZER [])) =
        Some (concat collected) \<and>
      last (llm_stream demo_world demo_client (str ''profile_summary'') SYS_SUMMARIZER []) =
        done_event (str ''profile_summary'') (concat collected)"
    using T [THEN conjunct2, THEN conjunct2, THEN conjunct2, THEN conjunct2, THEN conjunct2,
        THEN conjunct2, THEN mp, OF 1]
    unfolding 3 .
  show ?thesis
    by (intro conjI T [THEN conjunct1] T [THEN conjunct2, THEN conjunct2, THEN conjunct1]
        T [THEN conjunct2, THEN conjunct2, THEN conjunct2, THEN conjunct1]
        1 [THEN conjunct1] 1 [THEN conjunct2] 4)
qed

section \<open>The route\<close>

text \<open>
  Claim C9, as stated, fails: a body without the field \<^verbatim>\<open>linkedin_pdf\<close> does not reach
  \<^verbatim>\<open>run_outreach\<close>; it fails the validation of \<^verbatim>\<open>RunRequest\<close>, and the status of the
  response is 422, not 400.
\<close>

theorem missing_field_counterexample:
  "status_code (post_api_run demo_world
     \<lparr>body_linkedin_pdf = None, body_resume = Some (str ''Senior Engineer''),
      body_resume_pdf = None\<rparr>) = 422 \<and>
   status_code (post_api_run demo_world
     \<lparr>body_linkedin_pdf = None, body_resume = Some (str ''Senior Engineer''),
      body_resume_pdf = None\<rparr>) \<noteq> 400"
  by (simp add: post_api_run_def validate_RunRequest_def)

text \<open>
  Claim C9, amended. A request whose field \<^verbatim>\<open>linkedin_pdf\<close> is absent is rejected by the
  validation of the request body (status 422); a request whose field \<^verbatim>\<open>linkedin_pdf\<close> is
  the empty string is answered with status 400 and the message
  "linkedin_pdf is required.". In both cases no stream is opened: the response is a
  stream, and it is the stream of \<^verbatim>\<open>run_pipeline\<close> on the three fields, exactly when the
  field is present and not empty.
\<close>

theorem missing_or_empty_field_rejected:
  "(body_linkedin_pdf body = None \<longrightarrow> post_api_run w body = ValidationError) \<and>
   (body_linkedin_pdf body = Some [] \<longrightarrow>
      post_api_run w body = HTTPError 400 (str ''linkedin_pdf is required.'')) \<and>
   (body_linkedin_pdf body = None \<or> body_linkedin_pdf body = Some [] \<longrightarrow>
      (\<forall>r. post_api_run w body \<noteq> StreamingResponse r)) \<and>
   (body_linkedin_pdf body = Some lp \<and> lp \<noteq> [] \<longrightarrow>
      post_api_run w body =
        StreamingResponse (run_pipeline w lp
          (case body_resume body of None \<Rightarrow> [] | Some r \<Rightarrow> r)
          (case body_resume_pdf body of None \<Rightarrow> [] | Some r \<Rightarrow> r)))"
  by (auto simp: post_api_run_def validate_RunRequest_def run_outreach_def)

theorem missing_or_empty_field_rejected_witness:
  "post_api_run demo_world
     \<lparr>body_linkedin_pdf = None, body_resume = None, body_resume_pdf = None\<rparr> = ValidationError \<and>
   post_api_run demo_world
     \<lparr>body_linkedin_pdf = Some [], body_resume = None, body_resume_pdf = None\<rparr> =
     HTTPError 400 (str ''linkedin_pdf is required.'') \<and>
   post_api_run demo_world
     \<lparr>body_linkedin_pdf = Some (str ''SmFuZQ==''), body_resume = None, body_resume_pdf = None\<rparr> =
     StreamingResponse (run_pipeline demo_world (str ''SmFuZQ=='') [] [])"
  using missing_or_empty_field_rejected [of
      "\<lparr>body_linkedin_pdf = None, body_resume = None, body_resume_pdf = None\<rparr>" demo_world]
    missing_or_empty_field_rejected [of
      "\<lparr>body_linkedin_pdf = Some [], body_resume = None, body_resume_pdf = None\<rparr>" demo_world]
    missing_or_empty_field_rejected [of
      "\<lparr>body_linkedin_pdf = Some (str ''SmFuZQ==''), body_resume = None, body_resume_pdf = None\<rparr>"
      demo_world "str ''SmFuZQ==''"]
  by simp

end
